theory Spec2Isabelle
  imports Main "HOL-Library.Sublist" "HOL-Library.Char_ord" "HOL-Library.List_Lexorder"
begin

section \<open>LinkSqueezer: data model\<close>

text \<open>
  The service of \<^verbatim>\<open>src/server.js\<close> (and its earlier variant without authentication,
  \<^verbatim>\<open>src/unnamed/part_000\<close>) is an Express application over three SQLite tables.
  Each route handler is embedded as a function from the database and the request to a
  response and the database after the request.

  JSON values, for the response bodies the handlers build with \<^verbatim>\<open>res.json\<close>.
  An object is the list of its properties in the order the source writes them.
\<close>

datatype json =
    JNull
  | JBool bool
  | JNum nat
  | JStr string
  | JArr "json list"
  | JObj "(string \<times> json) list"

text \<open>
  The rows of the three tables, one field per column of the \<^verbatim>\<open>CREATE TABLE\<close>
  statements. A nullable TEXT column is a \<open>string option\<close> (\<open>None\<close> is NULL).
  \<^verbatim>\<open>created_at\<close> holds the text of \<^verbatim>\<open>CURRENT_TIMESTAMP\<close>,
  \<^verbatim>\<open>YYYY-MM-DD HH:MM:SS\<close>.
\<close>

record user =
  u_id :: string
  u_email :: string
  u_password_hash :: string
  u_created_at :: string

record link =
  l_id :: string
  l_user_id :: string
  l_original_url :: string
  l_short_code :: string
  l_title :: "string option"
  l_is_active :: nat
  l_created_at :: string

record click =
  c_id :: string
  c_link_id :: string
  c_user_agent :: "string option"
  c_referer :: "string option"
  c_country :: "string option"
  c_created_at :: string

text \<open>A table is the list of its rows in insertion order.\<close>

record db =
  users :: "user list"
  links :: "link list"
  clicks :: "click list"

text \<open>
  The exceptions a handler meets. An INSERT raises a violated PRIMARY KEY or UNIQUE
  column (SQLite reports both as \<^verbatim>\<open>UNIQUE constraint failed: table.column\<close>) or a
  violated FOREIGN KEY. Destructuring \<^verbatim>\<open>req.body\<close> when it is \<^verbatim>\<open>undefined\<close>
  raises a \<^verbatim>\<open>TypeError\<close>, here with the first property of the pattern, which its
  message names.
\<close>

datatype js_error = UniqueViolation string | ForeignKeyViolation | TypeError string

fun message :: "js_error \<Rightarrow> string" where
  "message (UniqueViolation col) = ''UNIQUE constraint failed: '' @ col"
| "message ForeignKeyViolation = ''FOREIGN KEY constraint failed''"
| "message (TypeError prop) =
     ''Cannot destructure property '' @ [CHR 0x27] @ prop @ [CHR 0x27] @
     '' of 'req.body' as it is undefined.''"

text \<open>\<^verbatim>\<open>err.message.includes('UNIQUE constraint failed')\<close>\<close>

fun is_unique_violation :: "js_error \<Rightarrow> bool" where
  "is_unique_violation (UniqueViolation col) = True"
| "is_unique_violation ForeignKeyViolation = False"
| "is_unique_violation (TypeError prop) = False"

text \<open>
  What a handler answers: \<^verbatim>\<open>res.status(n).json(body)\<close> (\<^verbatim>\<open>res.json(body)\<close>
  is status 200), \<^verbatim>\<open>res.redirect(url)\<close>, or an exception that leaves the handler
  uncaught, to which Express answers with its own error page and status 500.
\<close>

datatype response =
    Json nat json
  | Redirect string
  | Uncaught js_error

text \<open>
  The fields of a request body and the request headers the handlers read. A field is
  \<open>None\<close> when the body does not have it (JavaScript's \<^verbatim>\<open>undefined\<close>), and a
  string otherwise: the API's fields are all strings. A handler gets \<^verbatim>\<open>req.body\<close>
  as \<^verbatim>\<open>express.json()\<close> left it: \<open>Some\<close> of the parsed object, or \<open>None\<close> when
  it is \<^verbatim>\<open>undefined\<close>, as Express 5 leaves it for a request without a JSON body
  (Express 4 leaves the empty object; the version is not in the sources).
\<close>

record auth_body =
  email :: "string option"
  password :: "string option"

record link_body =
  originalUrl :: "string option"
  title :: "string option"
  customCode :: "string option"

record headers =
  authorization :: "string option"
  user_agent :: "string option"
  referer :: "string option"

text \<open>
  JavaScript's truthiness on such a field: \<^verbatim>\<open>undefined\<close> and the empty string are
  falsy, every other string is truthy. \<open>str_val\<close> reads the string of a truthy field.
\<close>

fun truthy :: "string option \<Rightarrow> bool" where
  "truthy None = False"
| "truthy (Some s) = (s \<noteq> [])"

fun str_val :: "string option \<Rightarrow> string" where
  "str_val None = []"
| "str_val (Some s) = s"

text \<open>\<^verbatim>\<open>x || null\<close>, as the INSERT statements bind their optional values.\<close>

definition or_null :: "string option \<Rightarrow> string option" where
  "or_null x = (if truthy x then x else None)"

subsection \<open>The libraries\<close>

text \<open>
  The payload of a session token, \<^verbatim>\<open>{id, email}\<close>.
\<close>

record token_user =
  tu_id :: string
  tu_email :: string

text \<open>
  bcryptjs and jsonwebtoken are not part of the repository: the handlers take them as
  parameters. \<open>bcrypt_hash\<close> is \<^verbatim>\<open>bcrypt.hash(password, 10)\<close>,
  \<open>bcrypt_compare\<close> is \<^verbatim>\<open>bcrypt.compare(password, hash)\<close>, \<open>jwt_sign\<close> is
  \<^verbatim>\<open>jwt.sign(payload, JWT_SECRET, {expiresIn: '7d'})\<close> at a time, and \<open>jwt_verify\<close>
  is \<^verbatim>\<open>jwt.verify(token, JWT_SECRET, callback)\<close> at a time: \<open>None\<close> when the
  callback gets an error, the decoded payload otherwise.
\<close>

record libs =
  bcrypt_hash :: "string \<Rightarrow> string"
  bcrypt_compare :: "string \<Rightarrow> string \<Rightarrow> bool"
  jwt_sign :: "token_user \<Rightarrow> nat \<Rightarrow> string"
  jwt_verify :: "string \<Rightarrow> nat \<Rightarrow> token_user option"

text \<open>
  What a request finds around it: the stream of random numbers nanoid draws from, the
  text of \<^verbatim>\<open>CURRENT_TIMESTAMP\<close>, the clock in seconds for the tokens, the text of
  \<^verbatim>\<open>new Date().toISOString()\<close>, the value of \<^verbatim>\<open>PORT\<close>, and whether SQLite
  enforces foreign keys (a pragma of the connection).
\<close>

record env =
  rng :: "nat \<Rightarrow> nat"
  now :: string
  clock :: nat
  iso_now :: string
  port :: string
  foreign_keys :: bool

text \<open>
  \<^verbatim>\<open>nanoid(n)\<close>: \<open>n\<close> characters of the URL-safe alphabet of 64 characters, one per
  random number, and the stream after the numbers it used.
\<close>

definition urlAlphabet :: string where
  "urlAlphabet = ''useandom-26T198340PX75pxJACKVERYMINDBUSHWOLF_GQZbfghjklqvwyzrict''"

fun nanoid_chars :: "nat \<Rightarrow> (nat \<Rightarrow> nat) \<Rightarrow> string" where
  "nanoid_chars 0 r = []"
| "nanoid_chars (Suc n) r = urlAlphabet ! (r 0 mod 64) # nanoid_chars n (\<lambda>i. r (Suc i))"

definition nanoid :: "nat \<Rightarrow> (nat \<Rightarrow> nat) \<Rightarrow> string \<times> (nat \<Rightarrow> nat)" where
  "nanoid n r = (nanoid_chars n r, \<lambda>i. r (i + n))"

subsection \<open>The INSERT statements\<close>

text \<open>
  Each INSERT checks the PRIMARY KEY and UNIQUE columns of its table, then (when the
  connection enforces them) the FOREIGN KEY, and appends the row.
\<close>

definition insert_user :: "db \<Rightarrow> user \<Rightarrow> js_error + db" where
  "insert_user s u =
     (if u_id u \<in> set (map u_id (users s)) then Inl (UniqueViolation ''users.id'')
      else if u_email u \<in> set (map u_email (users s)) then Inl (UniqueViolation ''users.email'')
      else Inr (s\<lparr>users := users s @ [u]\<rparr>))"

definition insert_link :: "env \<Rightarrow> db \<Rightarrow> link \<Rightarrow> js_error + db" where
  "insert_link E s l =
     (if l_id l \<in> set (map l_id (links s)) then Inl (UniqueViolation ''links.id'')
      else if l_short_code l \<in> set (map l_short_code (links s))
        then Inl (UniqueViolation ''links.short_code'')
      else if foreign_keys E \<and> l_user_id l \<notin> set (map u_id (users s))
        then Inl ForeignKeyViolation
      else Inr (s\<lparr>links := links s @ [l]\<rparr>))"

definition insert_click :: "env \<Rightarrow> db \<Rightarrow> click \<Rightarrow> js_error + db" where
  "insert_click E s c =
     (if c_id c \<in> set (map c_id (clicks s)) then Inl (UniqueViolation ''clicks.id'')
      else if foreign_keys E \<and> c_link_id c \<notin> set (map l_id (links s))
        then Inl ForeignKeyViolation
      else Inr (s\<lparr>clicks := clicks s @ [c]\<rparr>))"

subsection \<open>Response bodies\<close>

text \<open>\<^verbatim>\<open>{ error: msg }\<close> and \<^verbatim>\<open>{ success: true, data: d }\<close>.\<close>

definition error_body :: "string \<Rightarrow> json" where
  "error_body msg = JObj [(''error'', JStr msg)]"

definition success_body :: "json \<Rightarrow> json" where
  "success_body d = JObj [(''success'', JBool True), (''data'', d)]"

text \<open>A nullable column in a row that \<^verbatim>\<open>SELECT *\<close> returns.\<close>

fun json_opt :: "string option \<Rightarrow> json" where
  "json_opt None = JNull"
| "json_opt (Some s) = JStr s"

definition link_json :: "link \<Rightarrow> (string \<times> json) list" where
  "link_json l =
     [(''id'', JStr (l_id l)),
      (''user_id'', JStr (l_user_id l)),
      (''original_url'', JStr (l_original_url l)),
      (''short_code'', JStr (l_short_code l)),
      (''title'', json_opt (l_title l)),
      (''is_active'', JNum (l_is_active l)),
      (''created_at'', JStr (l_created_at l))]"

text \<open>
  A property whose value is \<^verbatim>\<open>undefined\<close> is left out of the JSON text.
\<close>

fun json_prop :: "string \<Rightarrow> string option \<Rightarrow> (string \<times> json) list" where
  "json_prop k None = []"
| "json_prop k (Some s) = [(k, JStr s)]"

section \<open>The handlers\<close>

subsection \<open>Auth middleware\<close>

text \<open>
  \<^verbatim>\<open>str.split(' ')\<close>: the pieces of the string between its spaces, at least one piece.
\<close>

fun split_space :: "string \<Rightarrow> string list" where
  "split_space [] = [[]]"
| "split_space (c # cs) =
     (if c = CHR '' '' then [] # split_space cs
      else (case split_space cs of
              [] \<Rightarrow> [[c]]
            | w # ws \<Rightarrow> (c # w) # ws))"

text \<open>\<^verbatim>\<open>arr[i]\<close>, which is \<^verbatim>\<open>undefined\<close> out of range.\<close>

definition nth_opt :: "'a list \<Rightarrow> nat \<Rightarrow> 'a option" where
  "nth_opt xs i = (if i < length xs then Some (xs ! i) else None)"

text \<open>\<^verbatim>\<open>const token = authHeader && authHeader.split(' ')[1];\<close>\<close>

definition header_token :: "string option \<Rightarrow> string option" where
  "header_token authHeader =
     (if truthy authHeader then nth_opt (split_space (str_val authHeader)) 1 else authHeader)"

text \<open>
  \<open>authenticateToken\<close> answers by itself (\<open>Inl\<close>) or calls \<^verbatim>\<open>next()\<close> with
  \<^verbatim>\<open>req.user\<close> set (\<open>Inr\<close>).
\<close>

definition authenticateToken :: "libs \<Rightarrow> env \<Rightarrow> headers \<Rightarrow> response + token_user" where
  "authenticateToken L E h =
     (let token = header_token (authorization h) in
      if \<not> truthy token then Inl (Json 401 (error_body ''Access token required''))
      else (case jwt_verify L (str_val token) (clock E) of
              None \<Rightarrow> Inl (Json 403 (error_body ''Invalid or expired token''))
            | Some user \<Rightarrow> Inr user))"

subsection \<open>Health check\<close>

definition health :: "env \<Rightarrow> response" where
  "health E = Json 200 (JObj [(''status'', JStr ''ok''), (''timestamp'', JStr (iso_now E))])"

subsection \<open>Register and login\<close>

definition auth_data :: "string \<Rightarrow> string \<Rightarrow> string \<Rightarrow> json" where
  "auth_data i e token =
     JObj [(''user'', JObj [(''id'', JStr i), (''email'', JStr e)]), (''token'', JStr token)]"

text \<open>
  \<^verbatim>\<open>const { email, password } = req.body;\<close> is the first statement of the handler,
  before the validation and outside the \<^verbatim>\<open>try\<close>: on an \<^verbatim>\<open>undefined\<close> body it
  throws and the handler ends there.
\<close>

definition register :: "libs \<Rightarrow> env \<Rightarrow> db \<Rightarrow> auth_body option \<Rightarrow> response \<times> db" where
  "register L E s body =
     (case body of
        None \<Rightarrow> (Uncaught (TypeError ''email''), s)
      | Some b \<Rightarrow>
          if \<not> truthy (email b) \<or> \<not> truthy (password b)
            then (Json 400 (error_body ''Email and password are required''), s)
          else if length (str_val (password b)) < 6
            then (Json 400 (error_body ''Password must be at least 6 characters''), s)
          else
            (let i = fst (nanoid 10 (rng E));
                 passwordHash = bcrypt_hash L (str_val (password b))
             in case insert_user s \<lparr>u_id = i, u_email = str_val (email b),
                                      u_password_hash = passwordHash, u_created_at = now E\<rparr> of
                  Inr s' \<Rightarrow>
                    (let token = jwt_sign L \<lparr>tu_id = i, tu_email = str_val (email b)\<rparr> (clock E)
                     in (Json 200 (success_body (auth_data i (str_val (email b)) token)), s'))
                | Inl err \<Rightarrow>
                    if is_unique_violation err
                      then (Json 400 (error_body ''Email already registered''), s)
                    else (Json 500 (error_body (message err)), s)))"

text \<open>\<^verbatim>\<open>SELECT * FROM users WHERE email = ?\<close>, the first row of the result.\<close>

definition user_by_email :: "db \<Rightarrow> string \<Rightarrow> user option" where
  "user_by_email s e = find (\<lambda>u. u_email u = e) (users s)"

definition login :: "libs \<Rightarrow> env \<Rightarrow> db \<Rightarrow> auth_body option \<Rightarrow> response" where
  "login L E s body =
     (case body of
        None \<Rightarrow> Uncaught (TypeError ''email'')
      | Some b \<Rightarrow>
          if \<not> truthy (email b) \<or> \<not> truthy (password b)
            then Json 400 (error_body ''Email and password are required'')
          else (case user_by_email s (str_val (email b)) of
                  None \<Rightarrow> Json 401 (error_body ''Invalid credentials'')
                | Some user \<Rightarrow>
                    if \<not> bcrypt_compare L (str_val (password b)) (u_password_hash user)
                      then Json 401 (error_body ''Invalid credentials'')
                    else
                      (let token = jwt_sign L \<lparr>tu_id = u_id user, tu_email = u_email user\<rparr>
                                     (clock E)
                       in Json 200 (success_body (auth_data (u_id user) (u_email user) token)))))"

subsection \<open>Links\<close>

text \<open>
  \<^verbatim>\<open>const shortCode = customCode || nanoid(6);\<close> with the random stream that is left:
  \<^verbatim>\<open>nanoid(6)\<close> is not called when \<^verbatim>\<open>customCode\<close> is truthy.
\<close>

definition choose_shortCode :: "env \<Rightarrow> link_body \<Rightarrow> string \<times> (nat \<Rightarrow> nat)" where
  "choose_shortCode E b =
     (if truthy (customCode b) then (str_val (customCode b), rng E) else nanoid 6 (rng E))"

text \<open>
  The handler of \<^verbatim>\<open>POST /api/links\<close> after the middleware, for the owner the INSERT
  binds: \<^verbatim>\<open>req.user.id\<close> in \<^verbatim>\<open>server.js\<close>, \<^verbatim>\<open>'demo-user'\<close> in the variant
  without authentication. Its first statement is
  \<^verbatim>\<open>const { originalUrl, title, customCode } = req.body;\<close>.
\<close>

definition createLink :: "env \<Rightarrow> db \<Rightarrow> string \<Rightarrow> link_body option \<Rightarrow> response \<times> db" where
  "createLink E s owner body =
     (case body of
        None \<Rightarrow> (Uncaught (TypeError ''originalUrl''), s)
      | Some b \<Rightarrow>
          if \<not> truthy (originalUrl b)
            then (Json 400 (error_body ''originalUrl is required''), s)
          else
            (let shortCode = fst (choose_shortCode E b);
                 i = fst (nanoid 10 (snd (choose_shortCode E b)))
             in case insert_link E s \<lparr>l_id = i, l_user_id = owner,
                                        l_original_url = str_val (originalUrl b),
                                        l_short_code = shortCode, l_title = or_null (title b),
                                        l_is_active = 1, l_created_at = now E\<rparr> of
                  Inr s' \<Rightarrow>
                    (Json 200 (success_body (JObj (
                       [(''id'', JStr i),
                        (''originalUrl'', JStr (str_val (originalUrl b))),
                        (''shortCode'', JStr shortCode),
                        (''shortUrl'', JStr (''http://localhost:'' @ port E @ ''/'' @ shortCode))]
                       @ json_prop ''title'' (title b)))), s')
                | Inl err \<Rightarrow>
                    if is_unique_violation err
                      then (Json 400 (error_body ''Short code already exists''), s)
                    else (Json 500 (error_body (message err)), s)))"

text \<open>
  \<^verbatim>\<open>SELECT * FROM links WHERE user_id = ? ORDER BY created_at DESC\<close>: newest
  first, and rows of the same \<^verbatim>\<open>created_at\<close> in the order of their insertion, as
  SQLite returns them (\<open>sort_key\<close> is stable).
\<close>

definition order_by_desc :: "('a \<Rightarrow> 'k::linorder) \<Rightarrow> 'a list \<Rightarrow> 'a list" where
  "order_by_desc f rows = rev (sort_key f (rev rows))"

definition listLinks :: "db \<Rightarrow> string \<Rightarrow> response" where
  "listLinks s owner =
     Json 200 (success_body (JArr (map (\<lambda>l. JObj (link_json l))
       (order_by_desc l_created_at (filter (\<lambda>l. l_user_id l = owner) (links s))))))"

subsection \<open>Redirect and click tracking\<close>

text \<open>
  \<^verbatim>\<open>SELECT * FROM links WHERE short_code = ? AND is_active = 1\<close>, the first row.
\<close>

definition active_link_by_code :: "db \<Rightarrow> string \<Rightarrow> link option" where
  "active_link_by_code s code = find (\<lambda>l. l_short_code l = code \<and> l_is_active l = 1) (links s)"

text \<open>
  The INSERT into \<^verbatim>\<open>clicks\<close> is a plain statement of the handler, outside any
  \<^verbatim>\<open>try\<close>: when it throws, the handler ends there.
\<close>

definition resolveAndRedirect :: "env \<Rightarrow> db \<Rightarrow> string \<Rightarrow> headers \<Rightarrow> response \<times> db" where
  "resolveAndRedirect E s shortCode h =
     (case active_link_by_code s shortCode of
        None \<Rightarrow> (Json 404 (error_body ''Link not found''), s)
      | Some link \<Rightarrow>
          (let clickId = fst (nanoid 10 (rng E))
           in case insert_click E s \<lparr>c_id = clickId, c_link_id = l_id link,
                                       c_user_agent = or_null (user_agent h),
                                       c_referer = or_null (referer h),
                                       c_country = None, c_created_at = now E\<rparr> of
                Inl err \<Rightarrow> (Uncaught err, s)
              | Inr s' \<Rightarrow> (Redirect (l_original_url link), s')))"

subsection \<open>Analytics\<close>

text \<open>\<^verbatim>\<open>SELECT * FROM links WHERE id = ?\<close>, the first row.\<close>

definition link_by_id :: "db \<Rightarrow> string \<Rightarrow> link option" where
  "link_by_id s i = find (\<lambda>l. l_id l = i) (links s)"

text \<open>
  \<^verbatim>\<open>DATE(created_at)\<close> of a \<^verbatim>\<open>CURRENT_TIMESTAMP\<close> text is its first ten characters,
  \<^verbatim>\<open>YYYY-MM-DD\<close>. \<open>click_dates\<close> is that column over \<^verbatim>\<open>WHERE link_id = ?\<close>.
\<close>

definition DATE :: "string \<Rightarrow> string" where
  "DATE ts = take 10 ts"

definition click_dates :: "db \<Rightarrow> string \<Rightarrow> string list" where
  "click_dates s i = map (\<lambda>c. DATE (c_created_at c)) (filter (\<lambda>c. c_link_id c = i) (clicks s))"

text \<open>
  \<^verbatim>\<open>COUNT(*)\<close> and \<^verbatim>\<open>COUNT(DISTINCT DATE(created_at))\<close>.
\<close>

definition total_clicks :: "db \<Rightarrow> string \<Rightarrow> nat" where
  "total_clicks s i = length (click_dates s i)"

definition active_days :: "db \<Rightarrow> string \<Rightarrow> nat" where
  "active_days s i = length (remdups (click_dates s i))"

text \<open>
  \<^verbatim>\<open>GROUP BY DATE(created_at)\<close> with \<^verbatim>\<open>COUNT(*)\<close>: every row goes to the group of
  its date, which is opened when the date is new. Then \<^verbatim>\<open>ORDER BY date DESC\<close> and
  \<^verbatim>\<open>LIMIT 7\<close>.
\<close>

fun count_group :: "'a \<Rightarrow> ('a \<times> nat) list \<Rightarrow> ('a \<times> nat) list" where
  "count_group d [] = [(d, 1)]"
| "count_group d ((d', n) # gs) =
     (if d = d' then (d', Suc n) # gs else (d', n) # count_group d gs)"

definition group_count :: "'a list \<Rightarrow> ('a \<times> nat) list" where
  "group_count ds = fold count_group ds []"

definition order_desc :: "('a::linorder \<times> nat) list \<Rightarrow> ('a \<times> nat) list" where
  "order_desc gs = rev (sort_key fst gs)"

definition daily :: "db \<Rightarrow> string \<Rightarrow> (string \<times> nat) list" where
  "daily s i = take 7 (order_desc (group_count (click_dates s i)))"

definition stats_json :: "db \<Rightarrow> string \<Rightarrow> json" where
  "stats_json s i =
     JObj [(''total_clicks'', JNum (total_clicks s i)), (''active_days'', JNum (active_days s i))]"

definition daily_json :: "(string \<times> nat) list \<Rightarrow> json" where
  "daily_json rows = JArr (map (\<lambda>(d, n). JObj [(''date'', JStr d), (''clicks'', JNum n)]) rows)"

definition getAnalytics :: "db \<Rightarrow> string \<Rightarrow> response" where
  "getAnalytics s i =
     (case link_by_id s i of
        None \<Rightarrow> Json 404 (error_body ''Link not found'')
      | Some link \<Rightarrow>
          Json 200 (success_body (JObj (link_json link @
            [(''stats'', stats_json s i), (''daily'', daily_json (daily s i))]))))"

subsection \<open>The routes\<close>

datatype request =
    GetHealth
  | PostRegister "auth_body option"
  | PostLogin "auth_body option"
  | PostLinks headers "link_body option"
  | GetLinks headers
  | GetShortCode string headers
  | GetAnalytics string

text \<open>The routes of \<^verbatim>\<open>server.js\<close>.\<close>

fun handle :: "libs \<Rightarrow> env \<Rightarrow> db \<Rightarrow> request \<Rightarrow> response \<times> db" where
  "handle L E s GetHealth = (health E, s)"
| "handle L E s (PostRegister b) = register L E s b"
| "handle L E s (PostLogin b) = (login L E s b, s)"
| "handle L E s (PostLinks h b) =
     (case authenticateToken L E h of
        Inl r \<Rightarrow> (r, s)
      | Inr user \<Rightarrow> createLink E s (tu_id user) b)"
| "handle L E s (GetLinks h) =
     (case authenticateToken L E h of
        Inl r \<Rightarrow> (r, s)
      | Inr user \<Rightarrow> (listLinks s (tu_id user), s))"
| "handle L E s (GetShortCode code h) = resolveAndRedirect E s code h"
| "handle L E s (GetAnalytics i) = (getAnalytics s i, s)"

text \<open>The routes of the variant without authentication: the owner is \<^verbatim>\<open>'demo-user'\<close>.\<close>

fun handle_demo :: "env \<Rightarrow> db \<Rightarrow> request \<Rightarrow> (response \<times> db) option" where
  "handle_demo E s GetHealth = Some (health E, s)"
| "handle_demo E s (PostLinks h b) = Some (createLink E s ''demo-user'' b)"
| "handle_demo E s (GetLinks h) = Some (listLinks s ''demo-user'', s)"
| "handle_demo E s (GetShortCode code h) = Some (resolveAndRedirect E s code h)"
| "handle_demo E s (GetAnalytics i) = Some (getAnalytics s i, s)"
| "handle_demo E s (PostRegister b) = None"
| "handle_demo E s (PostLogin b) = None"

text \<open>
  The server handles the requests one after the other on the same database, each in
  its own environment.
\<close>

fun run :: "libs \<Rightarrow> (env \<times> request) list \<Rightarrow> db \<Rightarrow> db" where
  "run L [] s = s"
| "run L ((E, req) # rest) s = run L rest (snd (handle L E s req))"

section \<open>Notions of the specification\<close>

text \<open>
  The wording of the claim about the middleware: "the substring after the first space".
\<close>

definition after_first_space :: "string \<Rightarrow> string" where
  "after_first_space h = drop 1 (dropWhile (\<lambda>c. c \<noteq> CHR '' '') h)"

text \<open>
  The shape in the claim about response bodies: an object with exactly the properties
  \<^verbatim>\<open>success: true\<close> and \<^verbatim>\<open>data\<close>.
\<close>

fun is_success_body :: "json \<Rightarrow> bool" where
  "is_success_body (JObj [(k1, JBool ok), (k2, d)]) = (k1 = ''success'' \<and> ok \<and> k2 = ''data'')"
| "is_success_body _ = False"

section \<open>Example data\<close>

text \<open>
  A concrete instance of the libraries, an environment and a small database, on which
  the theorems below are instantiated.
\<close>

definition example_libs :: libs where
  "example_libs =
     \<lparr>bcrypt_hash = (\<lambda>p. ''hashed:'' @ p),
      bcrypt_compare = (\<lambda>p h. h = ''hashed:'' @ p),
      jwt_sign = (\<lambda>u t. tu_id u @ ''|'' @ tu_email u),
      jwt_verify = (\<lambda>tok t.
         if CHR ''|'' \<in> set tok
         then Some \<lparr>tu_id = takeWhile (\<lambda>c. c \<noteq> CHR ''|'') tok,
                    tu_email = tl (dropWhile (\<lambda>c. c \<noteq> CHR ''|'') tok)\<rparr>
         else None)\<rparr>"

definition example_env :: env where
  "example_env =
     \<lparr>rng = (\<lambda>i. i), now = ''2026-02-06 10:00:00'', clock = 100,
      iso_now = ''2026-02-06T10:00:00.000Z'', port = ''3000'', foreign_keys = True\<rparr>"

definition example_headers :: headers where
  "example_headers =
     \<lparr>authorization = None, user_agent = Some ''curl/8.5.0'', referer = Some []\<rparr>"

definition alice :: user where
  "alice = \<lparr>u_id = ''user000001'', u_email = ''a@x.com'',
             u_password_hash = ''hashed:secret1'', u_created_at = ''2026-02-01 09:00:00''\<rparr>"

definition example_link :: link where
  "example_link =
     \<lparr>l_id = ''link000001'', l_user_id = ''user000001'',
      l_original_url = ''https://example.com'', l_short_code = ''abc123'',
      l_title = None, l_is_active = 1, l_created_at = ''2026-02-01 09:30:00''\<rparr>"

definition retired_link :: link where
  "retired_link =
     \<lparr>l_id = ''link000002'', l_user_id = ''user000001'',
      l_original_url = ''https://example.org/old'', l_short_code = ''old001'',
      l_title = Some ''Old page'', l_is_active = 0, l_created_at = ''2026-02-02 08:00:00''\<rparr>"

definition click_at :: "string \<Rightarrow> string \<Rightarrow> string \<Rightarrow> click" where
  "click_at i l t =
     \<lparr>c_id = i, c_link_id = l, c_user_agent = None, c_referer = None, c_country = None,
      c_created_at = t\<rparr>"

definition example_db :: db where
  "example_db =
     \<lparr>users = [alice],
      links = [example_link, retired_link],
      clicks =
        [click_at ''click00001'' ''link000001'' ''2026-02-03 10:00:00'',
         click_at ''click00002'' ''link000002'' ''2026-02-03 11:00:00'',
         click_at ''click00003'' ''link000001'' ''2026-02-05 12:00:00'',
         click_at ''click00004'' ''link000001'' ''2026-02-03 23:59:59'',
         click_at ''click00005'' ''link000002'' ''2026-02-04 00:00:00'']\<rparr>"

definition collision_db :: db where
  "collision_db =
     example_db\<lparr>clicks := clicks example_db @
        [click_at ''useandom-2'' ''link000002'' ''2026-02-04 07:00:00'']\<rparr>"

definition bob_body :: auth_body where
  "bob_body = \<lparr>email = Some ''b@x.com'', password = Some ''secret2''\<rparr>"

definition short_password_body :: auth_body where
  "short_password_body = \<lparr>email = Some ''c@x.com'', password = Some ''12345''\<rparr>"

definition alice_again_body :: auth_body where
  "alice_again_body = \<lparr>email = Some ''a@x.com'', password = Some ''another-secret''\<rparr>"

definition bob :: user where
  "bob = \<lparr>u_id = ''useandom-2'', u_email = ''b@x.com'',
           u_password_hash = ''hashed:secret2'', u_created_at = ''2026-02-06 10:00:00''\<rparr>"

definition carol :: user where
  "carol = \<lparr>u_id = ''useandom-2'', u_email = ''c@x.com'',
             u_password_hash = ''hashed:secret3'', u_created_at = ''2026-02-05 08:00:00''\<rparr>"

definition clash_db :: db where
  "clash_db = example_db\<lparr>users := [alice, carol]\<rparr>"

definition later_env :: env where
  "later_env = example_env\<lparr>rng := (\<lambda>i. i + 10), now := ''2026-02-07 09:00:00''\<rparr>"

definition dave_body :: auth_body where
  "dave_body = \<lparr>email = Some ''d@x.com'', password = Some ''secret4''\<rparr>"

definition dave :: user where
  "dave = \<lparr>u_id = ''6T198340PX'', u_email = ''d@x.com'',
            u_password_hash = ''hashed:secret4'', u_created_at = ''2026-02-07 09:00:00''\<rparr>"

definition empty_code_body :: link_body where
  "empty_code_body =
     \<lparr>originalUrl = Some ''https://example.com/a'', title = Some ''A'', customCode = Some []\<rparr>"

definition blank_code_body :: link_body where
  "blank_code_body =
     \<lparr>originalUrl = Some ''https://example.com/b'', title = None, customCode = Some []\<rparr>"

definition custom_code_body :: link_body where
  "custom_code_body =
     \<lparr>originalUrl = Some ''https://example.com/c'', title = None, customCode = Some ''promo1''\<rparr>"

definition taken_code_body :: link_body where
  "taken_code_body =
     \<lparr>originalUrl = Some ''https://example.com/d'', title = None, customCode = Some ''old001''\<rparr>"

definition two_space_headers :: headers where
  "two_space_headers = example_headers\<lparr>authorization := Some ''Bearer abc def''\<rparr>"

definition basic_headers :: headers where
  "basic_headers = example_headers\<lparr>authorization := Some ''Basic user000001|a@x.com''\<rparr>"

definition bare_token_headers :: headers where
  "bare_token_headers = example_headers\<lparr>authorization := Some ''user000001|a@x.com''\<rparr>"

definition alice_login_body :: auth_body where
  "alice_login_body = \<lparr>email = Some ''a@x.com'', password = Some ''secret1''\<rparr>"

definition busy_db :: db where
  "busy_db =
     example_db\<lparr>clicks :=
        [click_at ''click00011'' ''link000001'' ''2026-02-01 10:00:00'',
         click_at ''click00012'' ''link000001'' ''2026-01-28 11:00:00'',
         click_at ''click00013'' ''link000001'' ''2026-02-04 12:00:00'',
         click_at ''click00014'' ''link000002'' ''2026-02-05 12:30:00'',
         click_at ''click00015'' ''link000001'' ''2026-01-30 13:00:00'',
         click_at ''click00016'' ''link000001'' ''2026-02-02 14:00:00'',
         click_at ''click00017'' ''link000001'' ''2026-01-29 15:00:00'',
         click_at ''click00018'' ''link000001'' ''2026-02-01 16:00:00'',
         click_at ''click00019'' ''link000001'' ''2026-01-31 17:00:00'',
         click_at ''click00020'' ''link000001'' ''2026-02-03 18:00:00'']\<rparr>"

section \<open>Properties\<close>

subsection \<open>nanoid\<close>

lemma nanoid_chars_numeral:
  "nanoid_chars (numeral k) r =
     urlAlphabet ! (r 0 mod 64) # nanoid_chars (pred_numeral k) (\<lambda>i. r (Suc i))"
  by (simp only: numeral_eq_Suc[of k] nanoid_chars.simps)

lemma length_nanoid_chars: "length (nanoid_chars n r) = n"
  by (induction n arbitrary: r) simp_all

lemma length_nanoid: "length (fst (nanoid n r)) = n"
  by (simp add: nanoid_def length_nanoid_chars)

lemma example_nanoid10: "fst (nanoid 10 (rng example_env)) = ''useandom-2''"
  by (simp add: nanoid_def example_env_def nanoid_chars_numeral urlAlphabet_def)

lemma example_nanoid6: "fst (nanoid 6 (rng example_env)) = ''useand''"
  by (simp add: nanoid_def example_env_def nanoid_chars_numeral urlAlphabet_def)

lemmas nanoid_eval = nanoid_def nanoid_chars_numeral urlAlphabet_def

lemmas example_defs =
  example_db_def alice_def example_link_def retired_link_def click_at_def
  example_headers_def collision_db_def

subsection \<open>Redirect\<close>

text \<open>
  A visit of the active link of the example: the click is stored with the headers of
  the request (the empty \<^verbatim>\<open>referer\<close> as NULL), then the redirect is sent.
\<close>

lemma redirect_example:
  "resolveAndRedirect example_env example_db ''abc123'' example_headers =
     (Redirect ''https://example.com'',
      example_db\<lparr>clicks := clicks example_db @
        [\<lparr>c_id = ''useandom-2'', c_link_id = ''link000001'',
          c_user_agent = Some ''curl/8.5.0'', c_referer = None, c_country = None,
          c_created_at = ''2026-02-06 10:00:00''\<rparr>]\<rparr>)"
  by (simp add: resolveAndRedirect_def active_link_by_code_def insert_click_def or_null_def
      example_nanoid10 example_defs) (simp add: example_env_def)

text \<open>
  C1. The claim: when recording the click fails, the handler still redirects to the
  original URL. The handler runs the INSERT before \<^verbatim>\<open>res.redirect\<close> and outside any
  \<^verbatim>\<open>try\<close>, although its comment reads "Track click (async, don't wait)". Here the
  link \<^verbatim>\<open>abc123\<close> is active and nanoid draws the identifier of a click that is
  already stored: the INSERT throws, the exception leaves the handler and no redirect
  is sent.
\<close>

theorem redirect_click_insert_failure:
  "resolveAndRedirect example_env collision_db ''abc123'' example_headers =
     (Uncaught (UniqueViolation ''clicks.id''), collision_db)"
  by (simp add: resolveAndRedirect_def active_link_by_code_def insert_click_def
      example_nanoid10 example_defs)

text \<open>
  C6. A short code that no link has, or that only a link whose \<^verbatim>\<open>is_active\<close> is
  not 1 has, is answered with 404, and the database (so the clicks table) is as before.
\<close>

theorem redirect_not_found:
  assumes "\<forall>l \<in> set (links s). l_short_code l = code \<longrightarrow> l_is_active l \<noteq> 1"
  shows "resolveAndRedirect E s code h = (Json 404 (error_body ''Link not found''), s)"
proof -
  have "active_link_by_code s code = None"
    using assms by (auto simp: active_link_by_code_def find_None_iff)
  then show ?thesis
    by (simp add: resolveAndRedirect_def)
qed

text \<open>The two cases on the example: no link at all, and a link that is not active.\<close>

theorem redirect_not_found_witness:
  "map (\<lambda>l. (l_short_code l, l_is_active l)) (links example_db) = [(''abc123'', 1), (''old001'', 0)]
   \<and> resolveAndRedirect example_env example_db ''nosuch'' example_headers =
       (Json 404 (error_body ''Link not found''), example_db)
   \<and> resolveAndRedirect example_env example_db ''old001'' example_headers =
       (Json 404 (error_body ''Link not found''), example_db)"
proof -
  have rows: "map (\<lambda>l. (l_short_code l, l_is_active l)) (links example_db) =
      [(''abc123'', 1), (''old001'', 0)]"
    by (simp add: example_defs)
  have h1: "\<forall>l \<in> set (links example_db). l_short_code l = ''nosuch'' \<longrightarrow> l_is_active l \<noteq> 1"
    by (simp add: example_defs)
  have h2: "\<forall>l \<in> set (links example_db). l_short_code l = ''old001'' \<longrightarrow> l_is_active l \<noteq> 1"
    by (simp add: example_defs)
  show ?thesis
    using rows redirect_not_found [OF h1, of example_env example_headers]
      redirect_not_found [OF h2, of example_env example_headers]
    by simp
qed

subsection \<open>Register and login\<close>

lemma find_append:
  "find P (xs @ ys) = (case find P xs of None \<Rightarrow> find P ys | Some x \<Rightarrow> Some x)"
  by (induction xs) simp_all

lemma insert_user_Inr:
  "insert_user s u = Inr s' \<longleftrightarrow>
     u_id u \<notin> set (map u_id (users s)) \<and> u_email u \<notin> set (map u_email (users s)) \<and>
     s' = s\<lparr>users := users s @ [u]\<rparr>"
  by (auto simp: insert_user_def)

lemma insert_user_Inl:
  "insert_user s u = Inl e \<Longrightarrow> is_unique_violation e"
  by (auto simp: insert_user_def split: if_splits)

lemma insert_user_taken:
  "u_email u \<in> set (map u_email (users s)) \<Longrightarrow> \<exists>e. insert_user s u = Inl e"
  by (simp add: insert_user_def)

text \<open>
  On a request with a body, \<open>register\<close> answers 400 and leaves the database as it is
  when the email or the password is missing (or empty) or the password has fewer than 6
  characters, and when the email is the email of a stored user; in that last case a
  request that passes the two validations is answered with "Email already registered".
\<close>

lemma register_rejects:
  "(\<not> truthy (email b) \<or> \<not> truthy (password b) \<or> length (str_val (password b)) < 6 \<longrightarrow>
      (\<exists>msg. register L E s (Some b) = (Json 400 (error_body msg), s)))
   \<and> ((\<exists>e. email b = Some e \<and> e \<in> set (map u_email (users s))) \<longrightarrow>
      (\<exists>msg. register L E s (Some b) = (Json 400 (error_body msg), s))
      \<and> (truthy (email b) \<and> truthy (password b) \<and> 6 \<le> length (str_val (password b)) \<longrightarrow>
           register L E s (Some b) = (Json 400 (error_body ''Email already registered''), s)))"
proof (intro conjI impI)
  assume "\<not> truthy (email b) \<or> \<not> truthy (password b) \<or> length (str_val (password b)) < 6"
  then show "\<exists>msg. register L E s (Some b) = (Json 400 (error_body msg), s)"
    by (auto simp: register_def)
next
  assume taken: "\<exists>e. email b = Some e \<and> e \<in> set (map u_email (users s))"
  let ?u = "\<lparr>u_id = fst (nanoid 10 (rng E)), u_email = str_val (email b),
              u_password_hash = bcrypt_hash L (str_val (password b)), u_created_at = now E\<rparr>"
  from taken have "u_email ?u \<in> set (map u_email (users s))"
    by auto
  then obtain e where e: "insert_user s ?u = Inl e"
    using insert_user_taken by blast
  then have uniq: "is_unique_violation e"
    by (rule insert_user_Inl)
  show "\<exists>msg. register L E s (Some b) = (Json 400 (error_body msg), s)"
    using e uniq by (auto simp: register_def Let_def)
  show "register L E s (Some b) = (Json 400 (error_body ''Email already registered''), s)"
    if "truthy (email b) \<and> truthy (password b) \<and> 6 \<le> length (str_val (password b))"
    using that e uniq by (simp add: register_def Let_def)
qed

text \<open>On the example: a password of 5 characters, and the email of the stored user.\<close>

lemma register_rejects_example:
  "register example_libs example_env example_db (Some short_password_body) =
       (Json 400 (error_body ''Password must be at least 6 characters''), example_db)
   \<and> register example_libs example_env example_db (Some alice_again_body) =
       (Json 400 (error_body ''Email already registered''), example_db)"
  by (simp add: register_def insert_user_def Let_def short_password_body_def
      alice_again_body_def example_defs)

text \<open>
  C5. The claim: \<open>register\<close> answers 400 for every request in which the email or the
  password is missing. The handler has that validation, with the message "Email and
  password are required", but destructures \<^verbatim>\<open>req.body\<close> before it and outside the
  \<^verbatim>\<open>try\<close>. For a request without a body, in which both fields are missing, the
  destructuring throws: the exception leaves the handler, the validation is not
  reached and no 400 is sent.
\<close>

theorem register_without_body:
  "register L E s None = (Uncaught (TypeError ''email''), s)"
  by (simp add: register_def)

text \<open>On the example, with the text of the exception.\<close>

theorem register_without_body_witness:
  "register example_libs example_env example_db None =
     (Uncaught (TypeError ''email''), example_db)
   \<and> message (TypeError ''email'') =
       ''Cannot destructure property '' @ [CHR 0x27] @ ''email'' @ [CHR 0x27] @
       '' of 'req.body' as it is undefined.''"
  using register_without_body [of example_libs example_env example_db] by simp

lemma register_ok:
  assumes "register L E s (Some b) = (Json 200 body, s')"
  shows "truthy (email b) \<and> truthy (password b) \<and> 6 \<le> length (str_val (password b))
     \<and> s' = s\<lparr>users := users s @
          [\<lparr>u_id = fst (nanoid 10 (rng E)), u_email = str_val (email b),
            u_password_hash = bcrypt_hash L (str_val (password b)), u_created_at = now E\<rparr>]\<rparr>
     \<and> str_val (email b) \<notin> set (map u_email (users s))
     \<and> body = success_body (auth_data (fst (nanoid 10 (rng E))) (str_val (email b))
          (jwt_sign L \<lparr>tu_id = fst (nanoid 10 (rng E)), tu_email = str_val (email b)\<rparr> (clock E)))"
  using assms
  by (auto simp: register_def Let_def insert_user_Inr split: if_splits sum.splits)

text \<open>
  No request removes or changes a stored user: the users after a request, and after
  any sequence of requests, are the users before followed by the new ones.
\<close>

lemma createLink_users: "users (snd (createLink E s owner body)) = users s"
  by (auto simp: createLink_def insert_link_def Let_def split: option.splits)

lemma resolveAndRedirect_users: "users (snd (resolveAndRedirect E s code h)) = users s"
  by (auto simp: resolveAndRedirect_def insert_click_def Let_def split: option.splits)

lemma register_users: "prefix (users s) (users (snd (register L E s body)))"
  by (auto simp: register_def insert_user_def Let_def split: option.splits)

lemma handle_users: "prefix (users s) (users (snd (handle L E s req)))"
  by (cases req)
    (auto simp: register_users createLink_users resolveAndRedirect_users split: sum.splits)

lemma run_users: "prefix (users s) (users (run L reqs s))"
proof (induction reqs arbitrary: s)
  case Nil
  then show ?case by simp
next
  case (Cons q reqs)
  obtain E req where q: "q = (E, req)"
    by (cases q)
  have "prefix (users s) (users (snd (handle L E s req)))"
    by (rule handle_users)
  also have "prefix \<dots> (users (run L reqs (snd (handle L E s req))))"
    by (rule Cons.IH)
  finally show ?case
    by (simp add: q)
qed

text \<open>
  A login on any database that still starts with the users a successful registration
  left finds the registered user, the only one of its email.
\<close>

lemma login_after_register:
  assumes ok: "register L E s (Some b) = (Json 200 body, s')"
    and later: "prefix (users s') (users s'')"
    and bcrypt:
      "bcrypt_compare L (str_val (password b)) (bcrypt_hash L (str_val (password b)))"
  shows "login L E' s'' (Some b) =
      Json 200 (success_body (auth_data (fst (nanoid 10 (rng E))) (str_val (email b))
        (jwt_sign L \<lparr>tu_id = fst (nanoid 10 (rng E)), tu_email = str_val (email b)\<rparr>
           (clock E'))))"
proof -
  let ?i = "fst (nanoid 10 (rng E))"
  let ?em = "str_val (email b)"
  let ?u = "\<lparr>u_id = ?i, u_email = ?em,
             u_password_hash = bcrypt_hash L (str_val (password b)), u_created_at = now E\<rparr>"
  note reg = register_ok [OF ok]
  from later obtain more where more: "users s'' = users s' @ more"
    by (auto simp: prefix_def)
  from reg have "find (\<lambda>u. u_email u = ?em) (users s) = None"
    by (force simp: find_None_iff)
  with reg more have "user_by_email s'' ?em = Some ?u"
    by (simp add: user_by_email_def find_append)
  with reg bcrypt show ?thesis
    by (simp add: login_def Let_def)
qed

text \<open>
  C7. The claim: for every registration with an unused email and a valid password, a
  subsequent login with the same email and password succeeds, with a token of the same
  \<^verbatim>\<open>{id, email}\<close>. The email \<^verbatim>\<open>b@x.com\<close> is unused and the password valid, but
  nanoid draws the identifier of a stored user: the INSERT fails on the primary key,
  the handler answers 400 as for every UNIQUE failure, nothing is stored and the login
  is refused.
\<close>

theorem register_id_clash_counterexample:
  "map u_email (users clash_db) = [''a@x.com'', ''c@x.com'']
   \<and> bob_body = \<lparr>email = Some ''b@x.com'', password = Some ''secret2''\<rparr>
   \<and> register example_libs example_env clash_db (Some bob_body) =
       (Json 400 (error_body ''Email already registered''), clash_db)
   \<and> login example_libs example_env clash_db (Some bob_body) =
       Json 401 (error_body ''Invalid credentials'')"
  by (simp add: register_def login_def user_by_email_def insert_user_def Let_def nanoid_eval
      clash_db_def carol_def bob_body_def example_defs example_libs_def example_env_def)

text \<open>
  C7, amended. A registration with an email no stored user has and a password of at
  least 6 characters succeeds when the identifier nanoid draws is not the identifier
  of a stored user. After every registration that succeeds, a login with the same
  email and password succeeds on every later database, one whose users start with the
  users the registration left, as after any sequence of further requests. Both
  tokens are signed over the same \<^verbatim>\<open>{id, email}\<close>, the one the registration answers
  with, so they decode to the same pair. The libraries are taken with their contracts:
  \<^verbatim>\<open>bcrypt.compare\<close> accepts the hash \<^verbatim>\<open>bcrypt.hash\<close> made of the same password,
  and \<^verbatim>\<open>jwt.verify\<close> at time \<open>t\<close> decodes what \<^verbatim>\<open>jwt.sign\<close> signed at the times of
  the two requests.
\<close>

theorem register_then_login:
  assumes bcrypt:
      "bcrypt_compare L (str_val (password b)) (bcrypt_hash L (str_val (password b)))"
    and jwt_register:
      "jwt_verify L (jwt_sign L \<lparr>tu_id = fst (nanoid 10 (rng E)),
                                  tu_email = str_val (email b)\<rparr> (clock E)) t =
         Some \<lparr>tu_id = fst (nanoid 10 (rng E)), tu_email = str_val (email b)\<rparr>"
    and jwt_login:
      "jwt_verify L (jwt_sign L \<lparr>tu_id = fst (nanoid 10 (rng E)),
                                  tu_email = str_val (email b)\<rparr> (clock E')) t =
         Some \<lparr>tu_id = fst (nanoid 10 (rng E)), tu_email = str_val (email b)\<rparr>"
  shows "(truthy (email b) \<and> 6 \<le> length (str_val (password b))
          \<and> str_val (email b) \<notin> set (map u_email (users s))
          \<and> fst (nanoid 10 (rng E)) \<notin> set (map u_id (users s)) \<longrightarrow>
            (\<exists>body s'. register L E s (Some b) = (Json 200 body, s')))
     \<and> (\<forall>body s' s''. register L E s (Some b) = (Json 200 body, s')
            \<and> prefix (users s') (users s'') \<longrightarrow>
            (\<exists>tok tok'.
               body = success_body
                        (auth_data (fst (nanoid 10 (rng E))) (str_val (email b)) tok)
               \<and> login L E' s'' (Some b) =
                   Json 200 (success_body
                        (auth_data (fst (nanoid 10 (rng E))) (str_val (email b)) tok'))
               \<and> jwt_verify L tok t =
                   Some \<lparr>tu_id = fst (nanoid 10 (rng E)), tu_email = str_val (email b)\<rparr>
               \<and> jwt_verify L tok' t =
                   Some \<lparr>tu_id = fst (nanoid 10 (rng E)), tu_email = str_val (email b)\<rparr>))
     \<and> (\<forall>body s' reqs. register L E s (Some b) = (Json 200 body, s') \<longrightarrow>
            prefix (users s') (users (run L reqs s'))
            \<and> login L E' (run L reqs s') (Some b) =
                Json 200 (success_body
                  (auth_data (fst (nanoid 10 (rng E))) (str_val (email b))
                    (jwt_sign L \<lparr>tu_id = fst (nanoid 10 (rng E)),
                                  tu_email = str_val (email b)\<rparr> (clock E')))))"
proof (intro conjI allI impI)
  let ?i = "fst (nanoid 10 (rng E))"
  let ?em = "str_val (email b)"
  let ?u = "\<lparr>u_id = ?i, u_email = ?em,
             u_password_hash = bcrypt_hash L (str_val (password b)), u_created_at = now E\<rparr>"
  assume a: "truthy (email b) \<and> 6 \<le> length (str_val (password b))
          \<and> ?em \<notin> set (map u_email (users s)) \<and> ?i \<notin> set (map u_id (users s))"
  then have "truthy (password b)"
    by (cases "password b") auto
  moreover from a have "insert_user s ?u = Inr (s\<lparr>users := users s @ [?u]\<rparr>)"
    by (simp add: insert_user_Inr)
  ultimately show "\<exists>body s'. register L E s (Some b) = (Json 200 body, s')"
    using a by (simp add: register_def Let_def)
next
  let ?i = "fst (nanoid 10 (rng E))"
  let ?em = "str_val (email b)"
  fix body s' and s'' :: db
  assume a: "register L E s (Some b) = (Json 200 body, s') \<and> prefix (users s') (users s'')"
  then have ok: "register L E s (Some b) = (Json 200 body, s')"
    and later: "prefix (users s') (users s'')"
    by simp_all
  note reg = register_ok [OF ok]
  note log = login_after_register [OF ok later bcrypt, of E']
  show "\<exists>tok tok'.
      body = success_body (auth_data ?i ?em tok)
      \<and> login L E' s'' (Some b) = Json 200 (success_body (auth_data ?i ?em tok'))
      \<and> jwt_verify L tok t = Some \<lparr>tu_id = ?i, tu_email = ?em\<rparr>
      \<and> jwt_verify L tok' t = Some \<lparr>tu_id = ?i, tu_email = ?em\<rparr>"
    using reg log jwt_register jwt_login by blast
next
  fix body s' reqs
  assume ok: "register L E s (Some b) = (Json 200 body, s')"
  show "prefix (users s') (users (run L reqs s'))"
    by (rule run_users)
  then show "login L E' (run L reqs s') (Some b) =
      Json 200 (success_body
        (auth_data (fst (nanoid 10 (rng E))) (str_val (email b))
          (jwt_sign L \<lparr>tu_id = fst (nanoid 10 (rng E)),
                        tu_email = str_val (email b)\<rparr> (clock E'))))"
    by (rule login_after_register [OF ok _ bcrypt])
qed

text \<open>
  Registering \<^verbatim>\<open>b@x.com\<close> on the example, then logging in after another user has
  registered.
\<close>

theorem register_then_login_witness:
  "register example_libs example_env example_db (Some bob_body) =
     (Json 200 (success_body (auth_data ''useandom-2'' ''b@x.com'' ''useandom-2|b@x.com'')),
      example_db\<lparr>users := [alice, bob]\<rparr>)
   \<and> run example_libs [(later_env, PostRegister (Some dave_body))]
        (example_db\<lparr>users := [alice, bob]\<rparr>) =
       example_db\<lparr>users := [alice, bob, dave]\<rparr>
   \<and> login example_libs example_env (example_db\<lparr>users := [alice, bob, dave]\<rparr>) (Some bob_body) =
       Json 200 (success_body (auth_data ''useandom-2'' ''b@x.com'' ''useandom-2|b@x.com''))
   \<and> jwt_verify example_libs ''useandom-2|b@x.com'' 200 =
       Some \<lparr>tu_id = ''useandom-2'', tu_email = ''b@x.com''\<rparr>"
proof -
  have i: "fst (nanoid 10 (rng example_env)) = ''useandom-2''"
    by (rule example_nanoid10)
  have em: "str_val (email bob_body) = ''b@x.com''"
    and pw: "str_val (password bob_body) = ''secret2''"
    by (simp_all add: bob_body_def)
  have reg: "register example_libs example_env example_db (Some bob_body) =
     (Json 200 (success_body (auth_data ''useandom-2'' ''b@x.com'' ''useandom-2|b@x.com'')),
      example_db\<lparr>users := [alice, bob]\<rparr>)"
    by (simp add: register_def insert_user_def Let_def nanoid_eval bob_body_def bob_def
        example_defs example_libs_def example_env_def)
  have later: "run example_libs [(later_env, PostRegister (Some dave_body))]
        (example_db\<lparr>users := [alice, bob]\<rparr>) =
       example_db\<lparr>users := [alice, bob, dave]\<rparr>"
    by (simp add: register_def insert_user_def Let_def nanoid_eval dave_body_def dave_def
        bob_def later_env_def example_defs example_libs_def example_env_def)
  have ver: "jwt_verify example_libs ''useandom-2|b@x.com'' 200 =
       Some \<lparr>tu_id = ''useandom-2'', tu_email = ''b@x.com''\<rparr>"
    by (simp add: example_libs_def)
  have "login example_libs example_env
        (run example_libs [(later_env, PostRegister (Some dave_body))]
          (example_db\<lparr>users := [alice, bob]\<rparr>)) (Some bob_body) =
       Json 200 (success_body (auth_data ''useandom-2'' ''b@x.com''
         (jwt_sign example_libs \<lparr>tu_id = ''useandom-2'', tu_email = ''b@x.com''\<rparr>
            (clock example_env))))"
  proof -
    have "bcrypt_compare example_libs (str_val (password bob_body))
        (bcrypt_hash example_libs (str_val (password bob_body)))"
      by (simp add: example_libs_def)
    moreover have "jwt_verify example_libs
        (jwt_sign example_libs \<lparr>tu_id = fst (nanoid 10 (rng example_env)),
                                 tu_email = str_val (email bob_body)\<rparr> (clock example_env)) 200 =
        Some \<lparr>tu_id = fst (nanoid 10 (rng example_env)), tu_email = str_val (email bob_body)\<rparr>"
      by (simp add: i em example_libs_def)
    ultimately show ?thesis
      using register_then_login [of example_libs bob_body example_env 200 example_env example_db]
        reg
      by (simp only: i em)
  qed
  then have "login example_libs example_env (example_db\<lparr>users := [alice, bob, dave]\<rparr>)
        (Some bob_body) =
       Json 200 (success_body (auth_data ''useandom-2'' ''b@x.com''
         (jwt_sign example_libs \<lparr>tu_id = ''useandom-2'', tu_email = ''b@x.com''\<rparr>
            (clock example_env))))"
    by (simp only: later)
  moreover have "jwt_sign example_libs \<lparr>tu_id = ''useandom-2'', tu_email = ''b@x.com''\<rparr>
      (clock example_env) = ''useandom-2|b@x.com''"
    by (simp add: example_libs_def)
  ultimately have "login example_libs example_env
        (example_db\<lparr>users := [alice, bob, dave]\<rparr>) (Some bob_body) =
       Json 200 (success_body (auth_data ''useandom-2'' ''b@x.com'' ''useandom-2|b@x.com''))"
    by simp
  with reg later ver show ?thesis
    by (simp only: simp_thms)
qed

subsection \<open>Creating links\<close>

lemma insert_link_Inr:
  "insert_link E s l = Inr s' \<Longrightarrow> s' = s\<lparr>links := links s @ [l]\<rparr>"
  by (auto simp: insert_link_def split: if_splits)

lemma insert_link_taken:
  "l_short_code l \<in> set (map l_short_code (links s)) \<Longrightarrow>
     \<exists>e. insert_link E s l = Inl e \<and> is_unique_violation e"
  by (simp add: insert_link_def)

lemma createLink_ok:
  assumes "createLink E s owner (Some b) = (Json 200 body, s')"
  shows "s' = s\<lparr>links := links s @
            [\<lparr>l_id = fst (nanoid 10 (snd (choose_shortCode E b))), l_user_id = owner,
              l_original_url = str_val (originalUrl b),
              l_short_code = fst (choose_shortCode E b), l_title = or_null (title b),
              l_is_active = 1, l_created_at = now E\<rparr>]\<rparr>
     \<and> body = success_body (JObj (
           [(''id'', JStr (fst (nanoid 10 (snd (choose_shortCode E b))))),
            (''originalUrl'', JStr (str_val (originalUrl b))),
            (''shortCode'', JStr (fst (choose_shortCode E b))),
            (''shortUrl'', JStr (''http://localhost:'' @ port E @ ''/'' @ fst (choose_shortCode E b)))]
           @ json_prop ''title'' (title b)))"
  using assms
  by (auto simp: createLink_def Let_def split: if_splits sum.splits dest: insert_link_Inr)

lemma createLink_taken:
  assumes "fst (choose_shortCode E b) \<in> set (map l_short_code (links s))"
  shows "\<exists>msg. createLink E s owner (Some b) = (Json 400 (error_body msg), s)"
proof (cases "truthy (originalUrl b)")
  case False
  then show ?thesis
    by (auto simp: createLink_def)
next
  case True
  let ?l = "\<lparr>l_id = fst (nanoid 10 (snd (choose_shortCode E b))), l_user_id = owner,
              l_original_url = str_val (originalUrl b),
              l_short_code = fst (choose_shortCode E b), l_title = or_null (title b),
              l_is_active = 1, l_created_at = now E\<rparr>"
  from assms obtain e where "insert_link E s ?l = Inl e" "is_unique_violation e"
    using insert_link_taken [of ?l s E] by auto
  with True show ?thesis
    by (auto simp: createLink_def Let_def)
qed

text \<open>
  C10. An empty \<^verbatim>\<open>customCode\<close> is falsy, so \<^verbatim>\<open>customCode || nanoid(6)\<close> calls
  nanoid: the request is handled as the same request without \<^verbatim>\<open>customCode\<close>, and
  the row a successful call stores has the 6 characters nanoid generated as its short
  code, not the empty string.
\<close>

theorem createLink_empty_customCode:
  assumes "customCode b = Some []"
  shows "createLink E s owner (Some b) = createLink E s owner (Some (b\<lparr>customCode := None\<rparr>))
     \<and> (\<forall>body s'. createLink E s owner (Some b) = (Json 200 body, s') \<longrightarrow>
           (\<exists>row. links s' = links s @ [row]
              \<and> l_short_code row = fst (nanoid 6 (rng E))
              \<and> length (l_short_code row) = 6
              \<and> l_short_code row \<noteq> []))"
proof (intro conjI allI impI)
  show "createLink E s owner (Some b) = createLink E s owner (Some (b\<lparr>customCode := None\<rparr>))"
    using assms by (simp add: createLink_def choose_shortCode_def Let_def cong: sum.case_cong)
next
  fix body s'
  assume ok: "createLink E s owner (Some b) = (Json 200 body, s')"
  have code: "fst (choose_shortCode E b) = fst (nanoid 6 (rng E))"
    using assms by (simp add: choose_shortCode_def)
  have len: "length (fst (nanoid 6 (rng E))) = 6"
    by (rule length_nanoid)
  then have ne: "fst (nanoid 6 (rng E)) \<noteq> []"
    by auto
  from createLink_ok [OF ok] code len ne
  show "\<exists>row. links s' = links s @ [row]
      \<and> l_short_code row = fst (nanoid 6 (rng E))
      \<and> length (l_short_code row) = 6
      \<and> l_short_code row \<noteq> []"
    by simp
qed

text \<open>On the example the generated code is \<^verbatim>\<open>useand\<close>.\<close>

theorem createLink_empty_customCode_witness:
  "customCode blank_code_body = Some []
   \<and> fst (createLink example_env example_db ''user000001'' (Some blank_code_body)) =
       Json 200 (success_body (JObj
         [(''id'', JStr ''om-26T1983''),
          (''originalUrl'', JStr ''https://example.com/b''),
          (''shortCode'', JStr ''useand''),
          (''shortUrl'', JStr ''http://localhost:3000/useand'')]))
   \<and> map l_short_code (links (snd (createLink example_env example_db ''user000001'' (Some blank_code_body)))) =
       [''abc123'', ''old001'', ''useand'']"
proof -
  have h: "customCode blank_code_body = Some []"
    by (simp add: blank_code_body_def)
  have r: "fst (createLink example_env example_db ''user000001'' (Some blank_code_body)) =
       Json 200 (success_body (JObj
         [(''id'', JStr ''om-26T1983''),
          (''originalUrl'', JStr ''https://example.com/b''),
          (''shortCode'', JStr ''useand''),
          (''shortUrl'', JStr ''http://localhost:3000/useand'')]))"
    by (simp add: createLink_def choose_shortCode_def insert_link_def Let_def or_null_def
        nanoid_eval blank_code_body_def example_defs example_env_def)
  obtain body s' where
    eq: "createLink example_env example_db ''user000001'' (Some blank_code_body) = (Json 200 body, s')"
    using r by (cases "createLink example_env example_db ''user000001'' (Some blank_code_body)") simp
  with createLink_empty_customCode [OF h, of example_env example_db "''user000001''"]
  obtain row where "links s' = links example_db @ [row]"
    "l_short_code row = fst (nanoid 6 (rng example_env))"
    by blast
  then have "map l_short_code (links s') = [''abc123'', ''old001'', ''useand'']"
    by (simp add: example_nanoid6) (simp add: example_defs)
  with h r eq show ?thesis
    by simp
qed

text \<open>
  C4. The claim: the stored short code is the caller's \<^verbatim>\<open>customCode\<close> when one is
  supplied, otherwise a generated one; a short code that is taken gives 400 and no row;
  a successful response holds the link and a short URL that ends in the short code.
  The first part fails for a \<^verbatim>\<open>customCode\<close> supplied as the empty string: the
  stored short code is the generated \<^verbatim>\<open>useand\<close>.
\<close>

theorem createLink_customCode_counterexample:
  "customCode empty_code_body = Some []
   \<and> fst (createLink example_env example_db ''user000001'' (Some empty_code_body)) =
       Json 200 (success_body (JObj
         [(''id'', JStr ''om-26T1983''),
          (''originalUrl'', JStr ''https://example.com/a''),
          (''shortCode'', JStr ''useand''),
          (''shortUrl'', JStr ''http://localhost:3000/useand''),
          (''title'', JStr ''A'')]))
   \<and> map l_short_code (links (snd (createLink example_env example_db ''user000001'' (Some empty_code_body)))) =
       [''abc123'', ''old001'', ''useand'']"
  by (simp add: createLink_def choose_shortCode_def insert_link_def Let_def or_null_def
      nanoid_eval empty_code_body_def example_defs example_env_def)

text \<open>
  C4, amended. The short code is the caller's \<^verbatim>\<open>customCode\<close> when it is a non-empty
  string, and the 6 characters nanoid generates when it is absent or empty. For every
  call with an \<^verbatim>\<open>originalUrl\<close>: when that short code is the short code of a stored
  link the call answers 400 and the database is as before; when the call answers 200,
  exactly one row was appended to the links, with that short code, the caller's URL and
  the owner, and the response holds the row's id, the URL, the short code, the title if
  there is one, and \<^verbatim>\<open>http://localhost:PORT/\<close> followed by the short code.
\<close>

theorem createLink_short_code:
  assumes "originalUrl b \<noteq> None"
  shows "let generated = fst (nanoid 6 (rng E));
             chosen = (case customCode b of
                         None \<Rightarrow> generated
                       | Some c \<Rightarrow> if c = [] then generated else c);
             shortUrl = ''http://localhost:'' @ port E @ ''/'' @ chosen
         in length generated = 6
          \<and> (chosen \<in> set (map l_short_code (links s)) \<longrightarrow>
               (\<exists>msg. createLink E s owner (Some b) = (Json 400 (error_body msg), s)))
          \<and> (\<forall>body s'. createLink E s owner (Some b) = (Json 200 body, s') \<longrightarrow>
               (\<exists>row. s' = s\<lparr>links := links s @ [row]\<rparr>
                  \<and> l_short_code row = chosen
                  \<and> l_original_url row = str_val (originalUrl b)
                  \<and> l_user_id row = owner
                  \<and> body = success_body (JObj (
                       [(''id'', JStr (l_id row)),
                        (''originalUrl'', JStr (l_original_url row)),
                        (''shortCode'', JStr chosen),
                        (''shortUrl'', JStr shortUrl)] @ json_prop ''title'' (title b)))
                  \<and> suffix chosen shortUrl))"
proof -
  let ?chosen = "case customCode b of
                   None \<Rightarrow> fst (nanoid 6 (rng E))
                 | Some c \<Rightarrow> if c = [] then fst (nanoid 6 (rng E)) else c"
  have chosen: "fst (choose_shortCode E b) = ?chosen"
    by (cases "customCode b") (simp_all add: choose_shortCode_def)
  have len: "length (fst (nanoid 6 (rng E))) = 6"
    by (rule length_nanoid)
  have taken: "\<exists>msg. createLink E s owner (Some b) = (Json 400 (error_body msg), s)"
    if "?chosen \<in> set (map l_short_code (links s))"
    using that createLink_taken [of E b s owner] by (simp only: chosen)
  have ok: "\<exists>row. s' = s\<lparr>links := links s @ [row]\<rparr>
      \<and> l_short_code row = ?chosen
      \<and> l_original_url row = str_val (originalUrl b)
      \<and> l_user_id row = owner
      \<and> body = success_body (JObj (
           [(''id'', JStr (l_id row)),
            (''originalUrl'', JStr (l_original_url row)),
            (''shortCode'', JStr ?chosen),
            (''shortUrl'', JStr (''http://localhost:'' @ port E @ ''/'' @ ?chosen))]
           @ json_prop ''title'' (title b)))
      \<and> suffix ?chosen (''http://localhost:'' @ port E @ ''/'' @ ?chosen)"
    if "createLink E s owner (Some b) = (Json 200 body, s')" for body s'
    using createLink_ok [OF that] unfolding chosen
    by (intro exI [of _ "\<lparr>l_id = fst (nanoid 10 (snd (choose_shortCode E b))), l_user_id = owner,
              l_original_url = str_val (originalUrl b),
              l_short_code = ?chosen, l_title = or_null (title b),
              l_is_active = 1, l_created_at = now E\<rparr>"])
       (simp add: suffix_def)
  show ?thesis
    unfolding Let_def using len taken ok by blast
qed

text \<open>A custom code that is free, and one that a stored link has.\<close>

theorem createLink_short_code_witness:
  "originalUrl custom_code_body = Some ''https://example.com/c''
   \<and> createLink example_env example_db ''user000001'' (Some custom_code_body) =
       (Json 200 (success_body (JObj
          [(''id'', JStr ''useandom-2''),
           (''originalUrl'', JStr ''https://example.com/c''),
           (''shortCode'', JStr ''promo1''),
           (''shortUrl'', JStr ''http://localhost:3000/promo1'')])),
        example_db\<lparr>links := links example_db @
          [\<lparr>l_id = ''useandom-2'', l_user_id = ''user000001'',
            l_original_url = ''https://example.com/c'', l_short_code = ''promo1'',
            l_title = None, l_is_active = 1, l_created_at = ''2026-02-06 10:00:00''\<rparr>]\<rparr>)
   \<and> originalUrl taken_code_body = Some ''https://example.com/d''
   \<and> createLink example_env example_db ''user000001'' (Some taken_code_body) =
       (Json 400 (error_body ''Short code already exists''), example_db)"
proof -
  have h1: "originalUrl custom_code_body \<noteq> None" and h2: "originalUrl taken_code_body \<noteq> None"
    by (simp_all add: custom_code_body_def taken_code_body_def)
  have e1: "createLink example_env example_db ''user000001'' (Some custom_code_body) =
       (Json 200 (success_body (JObj
          [(''id'', JStr ''useandom-2''),
           (''originalUrl'', JStr ''https://example.com/c''),
           (''shortCode'', JStr ''promo1''),
           (''shortUrl'', JStr ''http://localhost:3000/promo1'')])),
        example_db\<lparr>links := links example_db @
          [\<lparr>l_id = ''useandom-2'', l_user_id = ''user000001'',
            l_original_url = ''https://example.com/c'', l_short_code = ''promo1'',
            l_title = None, l_is_active = 1, l_created_at = ''2026-02-06 10:00:00''\<rparr>]\<rparr>)"
    by (simp add: createLink_def choose_shortCode_def insert_link_def Let_def or_null_def
        nanoid_eval custom_code_body_def example_defs example_env_def)
  have "\<exists>msg. createLink example_env example_db ''user000001'' (Some taken_code_body) =
      (Json 400 (error_body msg), example_db)"
    using createLink_short_code [OF h2, of example_env example_db "''user000001''"]
    by (simp add: Let_def taken_code_body_def example_defs)
  moreover have "msg = ''Short code already exists''"
    if "createLink example_env example_db ''user000001'' (Some taken_code_body) =
      (Json 400 (error_body msg), example_db)" for msg
    using that
    by (simp add: createLink_def choose_shortCode_def insert_link_def Let_def or_null_def
        nanoid_eval taken_code_body_def example_defs example_env_def error_body_def)
  ultimately have e2: "createLink example_env example_db ''user000001'' (Some taken_code_body) =
       (Json 400 (error_body ''Short code already exists''), example_db)"
    by blast
  from createLink_short_code [OF h1, of example_env example_db "''user000001''"] e1 e2
  show ?thesis
    by (simp add: custom_code_body_def taken_code_body_def)
qed

subsection \<open>Auth middleware\<close>

lemma split_space_no_space:
  "CHR '' '' \<notin> set h \<Longrightarrow> split_space h = [h]"
  by (induction h) auto

lemma after_first_space_scheme:
  assumes "CHR '' '' \<notin> set scheme"
  shows "after_first_space (scheme @ '' '' @ rest) = rest"
proof -
  have "dropWhile (\<lambda>c. c \<noteq> CHR '' '') (scheme @ '' '' @ rest) =
      dropWhile (\<lambda>c. c \<noteq> CHR '' '') ('' '' @ rest)"
    using assms by (intro dropWhile_append2) auto
  then show ?thesis
    by (simp add: after_first_space_def)
qed

lemma split_space_hd:
  "\<exists>ws. split_space h = takeWhile (\<lambda>c. c \<noteq> CHR '' '') h # ws"
  by (induction h) auto

lemma split_space_at_space:
  "CHR '' '' \<in> set h \<Longrightarrow>
     split_space h = takeWhile (\<lambda>c. c \<noteq> CHR '' '') h # split_space (after_first_space h)"
proof (induction h)
  case Nil
  then show ?case by simp
next
  case (Cons c cs)
  show ?case
  proof (cases "c = CHR '' ''")
    case True
    then show ?thesis by (simp add: after_first_space_def)
  next
    case False
    with Cons.prems have "CHR '' '' \<in> set cs" by simp
    from Cons.IH [OF this] False show ?thesis
      by (simp add: after_first_space_def)
  qed
qed

lemma header_token_space:
  assumes "CHR '' '' \<in> set h"
  shows "header_token (Some h) = Some (takeWhile (\<lambda>c. c \<noteq> CHR '' '') (after_first_space h))"
proof -
  obtain ws where "split_space (after_first_space h) =
      takeWhile (\<lambda>c. c \<noteq> CHR '' '') (after_first_space h) # ws"
    using split_space_hd by blast
  with split_space_at_space [OF assms] have
    "nth_opt (split_space h) 1 = Some (takeWhile (\<lambda>c. c \<noteq> CHR '' '') (after_first_space h))"
    by (simp add: nth_opt_def)
  moreover have "h \<noteq> []"
    using assms by auto
  ultimately show ?thesis
    by (simp add: header_token_def)
qed

lemma header_token_no_space:
  assumes "CHR '' '' \<notin> set h"
  shows "\<not> truthy (header_token (Some h))"
  using split_space_no_space [OF assms]
  by (simp add: header_token_def nth_opt_def)

text \<open>
  C9. The claim: for a header with a space the token is the substring after the first
  space, whatever the scheme word. With two spaces in the header it is not:
  \<^verbatim>\<open>split(' ')[1]\<close> is the piece between the first space and the second.
\<close>

theorem header_token_counterexample:
  "header_token (authorization two_space_headers) = Some ''abc''
   \<and> after_first_space (str_val (authorization two_space_headers)) = ''abc def''"
  by (simp add: two_space_headers_def header_token_def nth_opt_def after_first_space_def)

text \<open>
  C9, amended. The middleware never looks at the scheme word. For a header with a
  space the token is the piece between the first space and the next one (or the end of
  the header): an empty piece is answered with 401, any other is given to
  \<^verbatim>\<open>jwt.verify\<close>. So a scheme word without spaces, a space and a valid token without
  spaces authenticate, whatever the scheme word. A header without a space is answered
  with 401, also when the header itself is a valid token.
\<close>

theorem authenticateToken_scheme:
  "(CHR '' '' \<in> set h \<longrightarrow>
      authenticateToken L E (hs\<lparr>authorization := Some h\<rparr>) =
        (let token = takeWhile (\<lambda>c. c \<noteq> CHR '' '') (after_first_space h) in
         if token = [] then Inl (Json 401 (error_body ''Access token required''))
         else case jwt_verify L token (clock E) of
                None \<Rightarrow> Inl (Json 403 (error_body ''Invalid or expired token''))
              | Some user \<Rightarrow> Inr user))
   \<and> (CHR '' '' \<notin> set scheme \<and> CHR '' '' \<notin> set tok \<and> tok \<noteq> []
        \<and> jwt_verify L tok (clock E) = Some user \<longrightarrow>
      authenticateToken L E (hs\<lparr>authorization := Some (scheme @ '' '' @ tok)\<rparr>) = Inr user)
   \<and> (CHR '' '' \<notin> set h \<longrightarrow>
      authenticateToken L E (hs\<lparr>authorization := Some h\<rparr>) =
        Inl (Json 401 (error_body ''Access token required'')))"
proof (intro conjI impI)
  assume "CHR '' '' \<in> set h"
  from header_token_space [OF this]
  show "authenticateToken L E (hs\<lparr>authorization := Some h\<rparr>) =
        (let token = takeWhile (\<lambda>c. c \<noteq> CHR '' '') (after_first_space h) in
         if token = [] then Inl (Json 401 (error_body ''Access token required''))
         else case jwt_verify L token (clock E) of
                None \<Rightarrow> Inl (Json 403 (error_body ''Invalid or expired token''))
              | Some user \<Rightarrow> Inr user)"
    by (simp add: authenticateToken_def Let_def)
next
  assume a: "CHR '' '' \<notin> set scheme \<and> CHR '' '' \<notin> set tok \<and> tok \<noteq> []
        \<and> jwt_verify L tok (clock E) = Some user"
  have "CHR '' '' \<in> set (scheme @ '' '' @ tok)"
    by simp
  moreover have "after_first_space (scheme @ '' '' @ tok) = tok"
    using a by (intro after_first_space_scheme) simp
  moreover have "takeWhile (\<lambda>c. c \<noteq> CHR '' '') tok = tok"
    using a by auto
  ultimately have "header_token (Some (scheme @ '' '' @ tok)) = Some tok"
    using header_token_space [of "scheme @ '' '' @ tok"] by simp
  with a show "authenticateToken L E (hs\<lparr>authorization := Some (scheme @ '' '' @ tok)\<rparr>) = Inr user"
    by (simp add: authenticateToken_def)
next
  assume "CHR '' '' \<notin> set h"
  from header_token_no_space [OF this]
  show "authenticateToken L E (hs\<lparr>authorization := Some h\<rparr>) =
        Inl (Json 401 (error_body ''Access token required''))"
    by (simp add: authenticateToken_def)
qed

text \<open>
  Three headers on the example: two spaces, the scheme \<^verbatim>\<open>Basic\<close> before a valid
  token, and a valid token alone.
\<close>

theorem authenticateToken_scheme_witness:
  "authenticateToken example_libs example_env two_space_headers =
     Inl (Json 403 (error_body ''Invalid or expired token''))
   \<and> jwt_verify example_libs ''user000001|a@x.com'' (clock example_env) =
       Some \<lparr>tu_id = ''user000001'', tu_email = ''a@x.com''\<rparr>
   \<and> authenticateToken example_libs example_env basic_headers =
       Inr \<lparr>tu_id = ''user000001'', tu_email = ''a@x.com''\<rparr>
   \<and> authenticateToken example_libs example_env bare_token_headers =
       Inl (Json 401 (error_body ''Access token required''))"
proof -
  have v: "jwt_verify example_libs ''user000001|a@x.com'' (clock example_env) =
       Some \<lparr>tu_id = ''user000001'', tu_email = ''a@x.com''\<rparr>"
    by (simp add: example_libs_def)
  have w: "jwt_verify example_libs ''abc'' (clock example_env) = None"
    by (simp add: example_libs_def)
  have h1: "two_space_headers = example_headers\<lparr>authorization := Some ''Bearer abc def''\<rparr>"
    and h2: "basic_headers =
      example_headers\<lparr>authorization := Some (''Basic'' @ '' '' @ ''user000001|a@x.com'')\<rparr>"
    and h3: "bare_token_headers = example_headers\<lparr>authorization := Some ''user000001|a@x.com''\<rparr>"
    by (simp_all add: two_space_headers_def basic_headers_def bare_token_headers_def)
  have a: "authenticateToken example_libs example_env two_space_headers =
     Inl (Json 403 (error_body ''Invalid or expired token''))"
    using authenticateToken_scheme [of "''Bearer abc def''" example_libs example_env example_headers]
    by (simp add: h1 w after_first_space_def)
  have b: "authenticateToken example_libs example_env basic_headers =
       Inr \<lparr>tu_id = ''user000001'', tu_email = ''a@x.com''\<rparr>"
    using authenticateToken_scheme [of _ example_libs example_env example_headers
        "''Basic''" "''user000001|a@x.com''" "\<lparr>tu_id = ''user000001'', tu_email = ''a@x.com''\<rparr>"]
    by (simp add: h2 v)
  have c: "authenticateToken example_libs example_env bare_token_headers =
       Inl (Json 401 (error_body ''Access token required''))"
    using authenticateToken_scheme [of "''user000001|a@x.com''" example_libs example_env example_headers]
    by (simp add: h3)
  show ?thesis
    using v a b c by simp
qed

subsection \<open>Listing links\<close>

text \<open>
  \<open>order_by_desc\<close> lists the rows by descending key and keeps the rows of one key in
  the order they had.
\<close>

lemma order_by_desc_sorted: "sorted (rev (map f (order_by_desc f rows)))"
  by (simp add: order_by_desc_def rev_map)

lemma order_by_desc_stable:
  "filter (\<lambda>r. f r = k) (order_by_desc f rows) = filter (\<lambda>r. f r = k) rows"
proof -
  have "filter (\<lambda>r. f r = k) (order_by_desc f rows) =
      rev (filter (\<lambda>r. f r = k) (sort_key f (rev rows)))"
    by (simp add: order_by_desc_def rev_filter)
  also have "\<dots> = rev (filter (\<lambda>r. f r = k) (rev rows))"
    by (simp only: sort_key_stable)
  also have "\<dots> = filter (\<lambda>r. f r = k) rows"
    by (simp add: rev_filter)
  finally show ?thesis .
qed

lemma order_by_desc_example:
  "order_by_desc fst [(1::nat, ''a''), (2, ''b''), (1, ''c''), (2, ''d'')] =
     [(2, ''b''), (2, ''d''), (1, ''a''), (1, ''c'')]"
  by (simp add: order_by_desc_def)

subsection \<open>Response bodies\<close>

lemma is_success_body_success_body: "is_success_body (success_body d)"
  by (simp add: success_body_def)

lemma register_200:
  "register L E s b = (Json 200 body, s') \<Longrightarrow> is_success_body body"
  by (auto simp: register_def Let_def is_success_body_success_body
      split: if_splits sum.splits option.splits)

lemma login_200:
  "login L E s b = Json 200 body \<Longrightarrow> is_success_body body"
  by (auto simp: login_def Let_def is_success_body_success_body split: if_splits option.splits)

lemma createLink_200:
  "createLink E s owner b = (Json 200 body, s') \<Longrightarrow> is_success_body body"
proof (cases b)
  case None
  then show "createLink E s owner b = (Json 200 body, s') \<Longrightarrow> is_success_body body"
    by (simp add: createLink_def)
next
  case (Some lb)
  then show "createLink E s owner b = (Json 200 body, s') \<Longrightarrow> is_success_body body"
    by (auto simp: is_success_body_success_body dest: createLink_ok)
qed

lemma listLinks_200:
  "listLinks s owner = Json 200 body \<Longrightarrow> is_success_body body"
  by (auto simp: listLinks_def is_success_body_success_body)

lemma getAnalytics_200:
  "getAnalytics s i = Json 200 body \<Longrightarrow> is_success_body body"
  by (auto simp: getAnalytics_def is_success_body_success_body split: option.splits)

lemma resolveAndRedirect_200:
  "resolveAndRedirect E s code h \<noteq> (Json 200 body, s')"
  by (auto simp: resolveAndRedirect_def Let_def split: option.splits sum.splits)

lemma authenticateToken_200:
  "authenticateToken L E h \<noteq> Inl (Json 200 body)"
  by (auto simp: authenticateToken_def Let_def split: option.splits)

text \<open>
  C3. The claim: every success response of every route has the shape
  \<^verbatim>\<open>{success: true, data: ...}\<close>, that of \<^verbatim>\<open>GET /api/health\<close> included. The health
  check answers \<^verbatim>\<open>{status: 'ok', timestamp: ...}\<close>, which does not have that shape.
\<close>

theorem health_body_counterexample:
  "handle example_libs example_env example_db GetHealth =
     (Json 200 (JObj [(''status'', JStr ''ok''), (''timestamp'', JStr ''2026-02-06T10:00:00.000Z'')]),
      example_db)
   \<and> \<not> is_success_body
         (JObj [(''status'', JStr ''ok''), (''timestamp'', JStr ''2026-02-06T10:00:00.000Z'')])"
  by (simp add: health_def example_env_def)

text \<open>
  C3, amended. For every route but \<^verbatim>\<open>GET /api/health\<close>, in \<^verbatim>\<open>server.js\<close> and in
  the variant without authentication, every JSON response with status 200 has the shape
  \<^verbatim>\<open>{success: true, data: ...}\<close>. The health check answers the object with
  \<^verbatim>\<open>status\<close> and \<^verbatim>\<open>timestamp\<close> as it is, in both variants.
\<close>

theorem success_bodies:
  "(req \<noteq> GetHealth \<longrightarrow>
      (\<forall>body s'. handle L E s req = (Json 200 body, s') \<longrightarrow> is_success_body body)
      \<and> (\<forall>body s'. handle_demo E s req = Some (Json 200 body, s') \<longrightarrow> is_success_body body))
   \<and> handle L E s GetHealth =
       (Json 200 (JObj [(''status'', JStr ''ok''), (''timestamp'', JStr (iso_now E))]), s)
   \<and> handle_demo E s GetHealth = Some (handle L E s GetHealth)"
proof (intro conjI impI allI)
  fix body s'
  assume "req \<noteq> GetHealth" and "handle L E s req = (Json 200 body, s')"
  then show "is_success_body body"
    by (cases req)
      (auto simp: authenticateToken_200 resolveAndRedirect_200
        dest: register_200 login_200 createLink_200 listLinks_200 getAnalytics_200
        split: sum.splits)
next
  fix body s'
  assume "req \<noteq> GetHealth" and "handle_demo E s req = Some (Json 200 body, s')"
  then show "is_success_body body"
    by (cases req)
      (auto simp: resolveAndRedirect_200
        dest: createLink_200 listLinks_200 getAnalytics_200)
qed (simp_all add: health_def)

text \<open>A login in \<^verbatim>\<open>server.js\<close> and a listing in the variant without authentication.\<close>

theorem success_bodies_witness:
  "handle example_libs example_env example_db (PostLogin (Some alice_login_body)) =
     (Json 200 (success_body (auth_data ''user000001'' ''a@x.com'' ''user000001|a@x.com'')),
      example_db)
   \<and> is_success_body
        (success_body (auth_data ''user000001'' ''a@x.com'' ''user000001|a@x.com''))
   \<and> handle_demo example_env example_db (GetLinks example_headers) =
       Some (Json 200 (success_body (JArr [])), example_db)
   \<and> is_success_body (success_body (JArr []))"
proof -
  have a: "handle example_libs example_env example_db (PostLogin (Some alice_login_body)) =
     (Json 200 (success_body (auth_data ''user000001'' ''a@x.com'' ''user000001|a@x.com'')),
      example_db)"
    by (simp add: login_def user_by_email_def Let_def alice_login_body_def example_defs
        example_libs_def)
  have b: "handle_demo example_env example_db (GetLinks example_headers) =
       Some (Json 200 (success_body (JArr [])), example_db)"
    by (simp add: listLinks_def order_by_desc_def example_defs)
  from a b success_bodies [of "PostLogin (Some alice_login_body)" example_libs example_env example_db]
    success_bodies [of "GetLinks example_headers" example_libs example_env example_db]
  show ?thesis
    by simp
qed

subsection \<open>Keys of the links table\<close>

text \<open>
  The two keys of the links table that the lookups rely on, identifiers (PRIMARY KEY)
  and short codes (UNIQUE), stay unique under every request.
\<close>

lemma insert_link_keys:
  assumes "insert_link E s l = Inr s'"
    and "distinct (map l_id (links s))" and "distinct (map l_short_code (links s))"
  shows "distinct (map l_id (links s')) \<and> distinct (map l_short_code (links s'))"
  using assms by (auto simp: insert_link_def split: if_splits)

lemma createLink_links:
  "createLink E s owner b = (r, s') \<Longrightarrow>
     s' = s \<or> (\<exists>l. insert_link E s l = Inr s')"
  by (auto simp: createLink_def Let_def split: if_splits sum.splits option.splits)

lemma handle_links:
  "handle L E s req = (r, s') \<Longrightarrow>
     links s' = links s \<or> (\<exists>l. insert_link E s l = Inr s')"
  by (cases req)
    (auto simp: register_def resolveAndRedirect_def insert_user_def insert_click_def Let_def
      dest: createLink_links split: if_splits sum.splits option.splits)

lemma handle_keys:
  assumes "handle L E s req = (r, s')"
    and "distinct (map l_id (links s))" and "distinct (map l_short_code (links s))"
  shows "distinct (map l_id (links s')) \<and> distinct (map l_short_code (links s'))"
  using handle_links [OF assms(1)] assms(2,3) insert_link_keys by force

subsection \<open>Analytics\<close>

lemma count_group_lookup:
  "map_of (count_group d gs) k =
     (if k = d then Some (case map_of gs d of None \<Rightarrow> 1 | Some n \<Rightarrow> Suc n) else map_of gs k)"
  by (induction d gs rule: count_group.induct) auto

lemma count_group_keys: "fst ` set (count_group d gs) = insert d (fst ` set gs)"
proof -
  have "dom (map_of (count_group d gs)) = insert d (dom (map_of gs))"
    by (auto simp: count_group_lookup dom_def split: if_splits)
  then show ?thesis
    by (simp add: dom_map_of_conv_image_fst)
qed

lemma count_group_distinct:
  "distinct (map fst gs) \<Longrightarrow> distinct (map fst (count_group d gs))"
proof (induction d gs rule: count_group.induct)
  case (1 d)
  then show ?case by simp
next
  case (2 d d' n gs)
  then show ?case
    using count_group_keys [of d gs] by auto
qed

lemma fold_count_group_lookup:
  "map_of (fold count_group ds gs) k =
     (case map_of gs k of
        None \<Rightarrow> if k \<in> set ds then Some (count_list ds k) else None
      | Some n \<Rightarrow> Some (n + count_list ds k))"
proof (induction ds arbitrary: gs)
  case Nil
  then show ?case by (simp split: option.splits)
next
  case (Cons d ds)
  show ?case
    by (simp add: Cons.IH count_group_lookup count_list_0_iff split: option.splits)
qed

lemma fold_count_group_distinct:
  "distinct (map fst gs) \<Longrightarrow> distinct (map fst (fold count_group ds gs))"
  by (induction ds arbitrary: gs) (simp_all add: count_group_distinct)

lemma group_count_distinct: "distinct (map fst (group_count ds))"
  by (simp add: group_count_def fold_count_group_distinct)

lemma group_count_lookup:
  "map_of (group_count ds) k = (if k \<in> set ds then Some (count_list ds k) else None)"
  by (simp add: group_count_def fold_count_group_lookup)

lemma group_count_keys: "set (map fst (group_count ds)) = set ds"
proof -
  have "dom (map_of (group_count ds)) = set ds"
    by (auto simp: group_count_lookup dom_def split: if_splits)
  then show ?thesis
    by (simp add: dom_map_of_conv_image_fst)
qed

lemma group_count_member:
  assumes "(d, n) \<in> set (group_count ds)"
  shows "n = count_list ds d" and "d \<in> set ds"
proof -
  from assms have "map_of (group_count ds) d = Some n"
    by (intro map_of_is_SomeI group_count_distinct)
  then show "n = count_list ds d" and "d \<in> set ds"
    by (simp_all add: group_count_lookup split: if_splits)
qed

lemma map_insort_key: "map f (insort_key f x xs) = insort (f x) (map f xs)"
  by (induction xs) simp_all

lemma map_sort_key: "map f (sort_key f xs) = sort (map f xs)"
  by (induction xs) (simp_all add: map_insort_key)

text \<open>
  The groups in descending order of their dates are the distinct dates in descending
  order, each with the number of its rows.
\<close>

lemma order_desc_group_count:
  "order_desc (group_count ds) = map (\<lambda>d. (d, count_list ds d)) (rev (sort (remdups ds)))"
proof -
  let ?gs = "sort_key fst (group_count ds)"
  have keys: "map fst ?gs = sort (remdups ds)"
  proof (rule sorted_distinct_set_unique)
    show "sorted (map fst ?gs)" by simp
    show "distinct (map fst ?gs)"
      by (simp add: map_sort_key group_count_distinct)
    show "set (map fst ?gs) = set (sort (remdups ds))"
      using group_count_keys [of ds] by (simp add: map_sort_key)
  qed simp_all
  have "\<forall>g \<in> set ?gs. g = (fst g, count_list ds (fst g))"
    using group_count_member(1) by (auto simp: prod_eq_iff)
  then have "map (\<lambda>g. (fst g, count_list ds (fst g))) ?gs = ?gs"
    by (intro map_idI) simp
  then have "?gs = map (\<lambda>g. (fst g, count_list ds (fst g))) ?gs"
    by simp
  also have "\<dots> = map (\<lambda>d. (d, count_list ds d)) (map fst ?gs)"
    by simp
  finally have "?gs = map (\<lambda>d. (d, count_list ds d)) (sort (remdups ds))"
    by (simp only: keys)
  then show ?thesis
    by (simp add: order_desc_def rev_map)
qed


lemma count_list_map_filter:
  "count_list (map f (filter P xs)) d = length (filter (\<lambda>x. P x \<and> f x = d) xs)"
  by (induction xs) auto

lemma daily_eq:
  "daily s i =
     map (\<lambda>d. (d, count_list (click_dates s i) d)) (take 7 (rev (sort (remdups (click_dates s i)))))"
  by (simp add: daily_def order_desc_group_count take_map)

lemma desc_dates: "sorted_wrt (\<lambda>a b. b < a) (rev (sort (remdups (ds :: 'a::linorder list))))"
proof -
  have "sorted_wrt (<) (sort (remdups ds))"
    by (simp add: strict_sorted_iff)
  then show ?thesis
    by (simp add: sorted_wrt_rev)
qed

lemma daily_dates:
  "map fst (daily s i) = take 7 (rev (sort (remdups (click_dates s i))))"
  by (simp add: daily_eq comp_def)

lemma daily_sorted: "sorted_wrt (\<lambda>a b. b < a) (map fst (daily s i))"
  by (simp add: daily_dates desc_dates)

lemma daily_length: "length (daily s i) = min 7 (active_days s i)"
  by (simp add: daily_eq active_days_def min.commute)

lemma daily_member:
  assumes "(d, n) \<in> set (daily s i)"
  shows "0 < n"
    and "n = length (filter (\<lambda>c. c_link_id c = i \<and> DATE (c_created_at c) = d) (clicks s))"
proof -
  from assms have d: "d \<in> set (click_dates s i)" and n: "n = count_list (click_dates s i) d"
    by (auto simp: daily_eq dest: in_set_takeD)
  from d n show "0 < n"
    using count_list_0_iff [of "click_dates s i" d] by simp
  from n show "n = length (filter (\<lambda>c. c_link_id c = i \<and> DATE (c_created_at c) = d) (clicks s))"
    by (simp add: click_dates_def count_list_map_filter)
qed

lemma daily_most_recent:
  assumes "d \<in> set (click_dates s i)" and "d \<notin> set (map fst (daily s i))"
    and "d' \<in> set (map fst (daily s i))"
  shows "d < d'"
proof -
  let ?ds = "rev (sort (remdups (click_dates s i)))"
  have "sorted_wrt (\<lambda>a b. b < a) (take 7 ?ds @ drop 7 ?ds)"
    by (simp only: append_take_drop_id desc_dates)
  then have later: "\<forall>x \<in> set (take 7 ?ds). \<forall>y \<in> set (drop 7 ?ds). y < x"
    unfolding sorted_wrt_append by blast
  have "set ?ds = set (take 7 ?ds) \<union> set (drop 7 ?ds)"
    by (metis append_take_drop_id set_append)
  moreover have "d \<in> set ?ds"
    using assms(1) by simp
  ultimately have "d \<in> set (drop 7 ?ds)"
    using assms(2) by (simp add: daily_dates)
  with later assms(3) show ?thesis
    by (simp add: daily_dates)
qed

lemma find_key:
  "distinct (map f xs) \<Longrightarrow> x \<in> set xs \<Longrightarrow> find (\<lambda>y. f y = f x) xs = Some x"
  by (induction xs) (auto simp: image_iff)

lemma link_by_id_found:
  "distinct (map l_id (links s)) \<Longrightarrow> l \<in> set (links s) \<Longrightarrow> link_by_id s (l_id l) = Some l"
  by (simp add: link_by_id_def find_key)

lemma link_by_id_missing:
  "i \<notin> set (map l_id (links s)) \<Longrightarrow> link_by_id s i = None"
  by (auto simp: link_by_id_def find_None_iff)

lemma active_link_by_code_inactive:
  assumes "distinct (map l_short_code (links s))" and "l \<in> set (links s)"
    and "l_is_active l \<noteq> 1"
  shows "active_link_by_code s (l_short_code l) = None"
proof -
  have "l' = l" if "l' \<in> set (links s)" "l_short_code l' = l_short_code l" for l'
    using that assms(1,2) by (auto simp: distinct_map dest: inj_onD)
  with assms(3) show ?thesis
    by (auto simp: active_link_by_code_def find_None_iff)
qed

lemma example_daily:
  "daily example_db ''link000001'' = [(''2026-02-05'', 1), (''2026-02-03'', 2)]"
  by (simp add: daily_def order_desc_def group_count_def click_dates_def DATE_def example_defs)

lemma example_stats:
  "total_clicks example_db ''link000001'' = 3" "active_days example_db ''link000001'' = 2"
  by (simp_all add: total_clicks_def active_days_def click_dates_def DATE_def example_defs)

lemma busy_daily:
  "daily busy_db ''link000001'' =
     [(''2026-02-04'', 1), (''2026-02-03'', 1), (''2026-02-02'', 1), (''2026-02-01'', 2),
      (''2026-01-31'', 1), (''2026-01-30'', 1), (''2026-01-29'', 1)]"
  by (simp add: daily_def order_desc_def group_count_def click_dates_def DATE_def busy_db_def
      example_defs)

lemma busy_stats:
  "total_clicks busy_db ''link000001'' = 9" "active_days busy_db ''link000001'' = 8"
  by (simp_all add: total_clicks_def active_days_def click_dates_def DATE_def busy_db_def
      example_defs)


lemma example_keys:
  "distinct (map l_id (links example_db))" "distinct (map l_short_code (links example_db))"
  "distinct (map l_id (links busy_db))"
  by (simp_all add: busy_db_def example_defs)

text \<open>
  C2. For the identifier of a stored link (identifiers are the primary key of the
  table), \<open>getAnalytics\<close> answers 200 with the columns of the link followed by
  \<^verbatim>\<open>stats\<close> and \<^verbatim>\<open>daily\<close>; for an identifier no link has it answers 404. In
  \<^verbatim>\<open>stats\<close>, \<^verbatim>\<open>total_clicks\<close> is the number of clicks of the link and
  \<^verbatim>\<open>active_days\<close> the number of distinct dates among them, both over all clicks.
  \<^verbatim>\<open>daily\<close> lists dates newest first without repetition, has 7 rows or as many as
  there are dates when these are fewer, gives each date with the number of the link's
  clicks on it (at least one), and every date of a click that it leaves out is older
  than all the dates it lists.
\<close>

theorem getAnalytics_aggregates:
  "(\<forall>l \<in> set (links s). distinct (map l_id (links s)) \<longrightarrow> l_id l = i \<longrightarrow>
      getAnalytics s i =
        Json 200 (success_body (JObj (link_json l @
          [(''stats'', JObj [(''total_clicks'', JNum (total_clicks s i)),
                             (''active_days'', JNum (active_days s i))]),
           (''daily'', JArr (map (\<lambda>(d, n). JObj [(''date'', JStr d), (''clicks'', JNum n)])
                               (daily s i)))]))))
   \<and> (i \<notin> set (map l_id (links s)) \<longrightarrow>
        getAnalytics s i = Json 404 (error_body ''Link not found''))
   \<and> total_clicks s i = length (filter (\<lambda>c. c_link_id c = i) (clicks s))
   \<and> active_days s i = card ((\<lambda>c. DATE (c_created_at c)) ` {c \<in> set (clicks s). c_link_id c = i})
   \<and> sorted_wrt (\<lambda>a b. b < a) (map fst (daily s i))
   \<and> length (daily s i) = min 7 (active_days s i)
   \<and> (\<forall>(d, n) \<in> set (daily s i).
         0 < n \<and> n = length (filter (\<lambda>c. c_link_id c = i \<and> DATE (c_created_at c) = d) (clicks s)))
   \<and> (\<forall>c \<in> set (clicks s). c_link_id c = i \<longrightarrow>
         DATE (c_created_at c) \<notin> set (map fst (daily s i)) \<longrightarrow>
         (\<forall>d \<in> set (map fst (daily s i)). DATE (c_created_at c) < d))"
proof (intro conjI ballI impI)
  fix l
  assume "l \<in> set (links s)" "distinct (map l_id (links s))" "l_id l = i"
  then have "link_by_id s i = Some l"
    using link_by_id_found by blast
  then show "getAnalytics s i =
        Json 200 (success_body (JObj (link_json l @
          [(''stats'', JObj [(''total_clicks'', JNum (total_clicks s i)),
                             (''active_days'', JNum (active_days s i))]),
           (''daily'', JArr (map (\<lambda>(d, n). JObj [(''date'', JStr d), (''clicks'', JNum n)])
                               (daily s i)))])))"
    by (simp add: getAnalytics_def stats_json_def daily_json_def)
next
  assume "i \<notin> set (map l_id (links s))"
  then show "getAnalytics s i = Json 404 (error_body ''Link not found'')"
    by (simp add: getAnalytics_def link_by_id_missing)
next
  show "total_clicks s i = length (filter (\<lambda>c. c_link_id c = i) (clicks s))"
    by (simp add: total_clicks_def click_dates_def)
next
  have "set (click_dates s i) = (\<lambda>c. DATE (c_created_at c)) ` {c \<in> set (clicks s). c_link_id c = i}"
    by (auto simp: click_dates_def)
  then show "active_days s i =
      card ((\<lambda>c. DATE (c_created_at c)) ` {c \<in> set (clicks s). c_link_id c = i})"
    by (simp add: active_days_def length_remdups_card_conv)
next
  show "sorted_wrt (\<lambda>a b. b < a) (map fst (daily s i))"
    by (rule daily_sorted)
next
  show "length (daily s i) = min 7 (active_days s i)"
    by (rule daily_length)
next
  fix g
  assume "g \<in> set (daily s i)"
  then show "case g of (d, n) \<Rightarrow>
      0 < n \<and> n = length (filter (\<lambda>c. c_link_id c = i \<and> DATE (c_created_at c) = d) (clicks s))"
    using daily_member [of "fst g" "snd g" s i] by (simp add: case_prod_beta)
next
  fix c d
  assume "c \<in> set (clicks s)" "c_link_id c = i"
    and "DATE (c_created_at c) \<notin> set (map fst (daily s i))"
    and "d \<in> set (map fst (daily s i))"
  moreover from this have "DATE (c_created_at c) \<in> set (click_dates s i)"
    by (auto simp: click_dates_def)
  ultimately show "DATE (c_created_at c) < d"
    using daily_most_recent by blast
qed

text \<open>
  The active link of the example, an identifier no link has, and a database where the
  link has clicks on 8 dates: \<^verbatim>\<open>daily\<close> keeps the 7 newest.
\<close>

theorem getAnalytics_aggregates_witness:
  "map l_id (links example_db) = [''link000001'', ''link000002'']
   \<and> getAnalytics example_db ''link000001'' =
       Json 200 (success_body (JObj
         [(''id'', JStr ''link000001''),
          (''user_id'', JStr ''user000001''),
          (''original_url'', JStr ''https://example.com''),
          (''short_code'', JStr ''abc123''),
          (''title'', JNull),
          (''is_active'', JNum 1),
          (''created_at'', JStr ''2026-02-01 09:30:00''),
          (''stats'', JObj [(''total_clicks'', JNum 3), (''active_days'', JNum 2)]),
          (''daily'', JArr
             [JObj [(''date'', JStr ''2026-02-05''), (''clicks'', JNum 1)],
              JObj [(''date'', JStr ''2026-02-03''), (''clicks'', JNum 2)]])]))
   \<and> getAnalytics example_db ''link000009'' = Json 404 (error_body ''Link not found'')
   \<and> total_clicks busy_db ''link000001'' = 9
   \<and> active_days busy_db ''link000001'' = 8
   \<and> daily busy_db ''link000001'' =
       [(''2026-02-04'', 1), (''2026-02-03'', 1), (''2026-02-02'', 1), (''2026-02-01'', 2),
        (''2026-01-31'', 1), (''2026-01-30'', 1), (''2026-01-29'', 1)]"
proof -
  have ids: "map l_id (links example_db) = [''link000001'', ''link000002'']"
    by (simp add: example_defs)
  have l: "example_link \<in> set (links example_db)" "l_id example_link = ''link000001''"
    by (simp_all add: example_defs)
  have missing: "''link000009'' \<notin> set (map l_id (links example_db))"
    by (simp add: ids)
  note agg = getAnalytics_aggregates [of example_db "''link000001''"]
  from agg l example_keys(1) have
    "getAnalytics example_db ''link000001'' =
        Json 200 (success_body (JObj (link_json example_link @
          [(''stats'', JObj [(''total_clicks'', JNum (total_clicks example_db ''link000001'')),
                             (''active_days'', JNum (active_days example_db ''link000001''))]),
           (''daily'', JArr (map (\<lambda>(d, n). JObj [(''date'', JStr d), (''clicks'', JNum n)])
                               (daily example_db ''link000001'')))])))"
    by blast
  then have found: "getAnalytics example_db ''link000001'' =
       Json 200 (success_body (JObj
         [(''id'', JStr ''link000001''),
          (''user_id'', JStr ''user000001''),
          (''original_url'', JStr ''https://example.com''),
          (''short_code'', JStr ''abc123''),
          (''title'', JNull),
          (''is_active'', JNum 1),
          (''created_at'', JStr ''2026-02-01 09:30:00''),
          (''stats'', JObj [(''total_clicks'', JNum 3), (''active_days'', JNum 2)]),
          (''daily'', JArr
             [JObj [(''date'', JStr ''2026-02-05''), (''clicks'', JNum 1)],
              JObj [(''date'', JStr ''2026-02-03''), (''clicks'', JNum 2)]])]))"
    by (simp add: example_daily example_stats link_json_def example_link_def)
  have not_found: "getAnalytics example_db ''link000009'' = Json 404 (error_body ''Link not found'')"
    using getAnalytics_aggregates [of example_db "''link000009''"] missing by blast
  show ?thesis
    using ids found not_found busy_stats busy_daily by simp
qed

text \<open>
  C8. For a stored link whose \<^verbatim>\<open>is_active\<close> is not 1 (identifiers and short codes
  are unique in the table), \<open>getAnalytics\<close> answers 200 with the link's columns and
  the aggregates, while the redirect of its short code answers 404.
\<close>

theorem getAnalytics_inactive:
  assumes "l \<in> set (links s)" and "l_is_active l \<noteq> 1"
    and "distinct (map l_id (links s))" and "distinct (map l_short_code (links s))"
  shows "getAnalytics s (l_id l) =
      Json 200 (success_body (JObj (link_json l @
        [(''stats'', stats_json s (l_id l)), (''daily'', daily_json (daily s (l_id l)))])))
    \<and> resolveAndRedirect E s (l_short_code l) h = (Json 404 (error_body ''Link not found''), s)"
  using assms
  by (simp add: getAnalytics_def link_by_id_found resolveAndRedirect_def
      active_link_by_code_inactive)

text \<open>The link of the example that is not active.\<close>

theorem getAnalytics_inactive_witness:
  "getAnalytics example_db ''link000002'' =
     Json 200 (success_body (JObj
       [(''id'', JStr ''link000002''),
        (''user_id'', JStr ''user000001''),
        (''original_url'', JStr ''https://example.org/old''),
        (''short_code'', JStr ''old001''),
        (''title'', JStr ''Old page''),
        (''is_active'', JNum 0),
        (''created_at'', JStr ''2026-02-02 08:00:00''),
        (''stats'', JObj [(''total_clicks'', JNum 2), (''active_days'', JNum 2)]),
        (''daily'', JArr
           [JObj [(''date'', JStr ''2026-02-04''), (''clicks'', JNum 1)],
            JObj [(''date'', JStr ''2026-02-03''), (''clicks'', JNum 1)]])]))
   \<and> resolveAndRedirect example_env example_db ''old001'' example_headers =
       (Json 404 (error_body ''Link not found''), example_db)"
proof -
  have l: "retired_link \<in> set (links example_db)" "l_is_active retired_link \<noteq> 1"
    by (simp_all add: example_defs)
  have d: "daily example_db ''link000002'' = [(''2026-02-04'', 1), (''2026-02-03'', 1)]"
    by (simp add: daily_def order_desc_def group_count_def click_dates_def DATE_def example_defs)
  have st: "stats_json example_db ''link000002'' =
      JObj [(''total_clicks'', JNum 2), (''active_days'', JNum 2)]"
    by (simp add: stats_json_def total_clicks_def active_days_def click_dates_def DATE_def
        example_defs)
  from getAnalytics_inactive [OF l example_keys(1,2), of example_env example_headers]
  show ?thesis
    by (simp add: d st daily_json_def link_json_def retired_link_def)
qed

end
